theory Spec2Isabelle
  imports Complex_Main "HOL-Library.Word"
begin

section \<open>Conventions of the embedding\<close>

text \<open>
  The C sources compute on \<^verbatim>\<open>float\<close>. A sample is modelled as a real number and every
  arithmetic operation of the source is taken exact, in the order the source writes it;
  \<^verbatim>\<open>sinf\<close>, \<^verbatim>\<open>cosf\<close>, \<^verbatim>\<open>sqrtf\<close>, \<^verbatim>\<open>powf\<close>, \<^verbatim>\<open>log10f\<close> are the real functions. Rounding,
  infinities and NaN are outside the model.

  A C array reached through a pointer is a store \<open>nat \<Rightarrow> 'a\<close> from index to value, with
  its length passed separately as the source does; a pointer that the source tests against
  \<^verbatim>\<open>NULL\<close> is an \<open>option\<close>. Module-level \<^verbatim>\<open>static\<close> variables are the fields of one
  record per module, passed in and returned.
\<close>

datatype HAL_StatusTypeDef = HAL_OK | HAL_ERROR

definition AUDIO_OUTPUT_CHANNELS :: nat where
  "AUDIO_OUTPUT_CHANNELS = 4"

definition AUDIO_SAMPLE_RATE :: nat where
  "AUDIO_SAMPLE_RATE = 48000"

text \<open>\<^verbatim>\<open>MIN\<close>, \<^verbatim>\<open>MAX\<close> and \<^verbatim>\<open>CLAMP\<close> as the macros of compressor\_proc.c expand.\<close>

definition MAX_f :: "real \<Rightarrow> real \<Rightarrow> real" where
  "MAX_f a b = (if a > b then a else b)"

definition MIN_f :: "real \<Rightarrow> real \<Rightarrow> real" where
  "MIN_f a b = (if a < b then a else b)"

definition CLAMP :: "real \<Rightarrow> real \<Rightarrow> real \<Rightarrow> real" where
  "CLAMP x lo hi = MIN_f (MAX_f x lo) hi"


section \<open>Biquad section (Filter/Src/biquad.c)\<close>

record BiquadState_t =
  bq_b0 :: real
  bq_b1 :: real
  bq_b2 :: real
  bq_a1 :: real
  bq_a2 :: real
  bq_x1 :: real
  bq_x2 :: real
  bq_y1 :: real
  bq_y2 :: real

definition Biquad_Reset :: "BiquadState_t \<Rightarrow> BiquadState_t" where
  "Biquad_Reset state = state\<lparr>bq_x1 := 0, bq_x2 := 0, bq_y1 := 0, bq_y2 := 0\<rparr>"

definition Biquad_DirectFormII :: "BiquadState_t \<Rightarrow> real \<Rightarrow> real \<times> BiquadState_t" where
  "Biquad_DirectFormII state input =
     (let w0 = input - bq_a1 state * bq_y1 state - bq_a2 state * bq_y2 state;
          output = bq_b0 state * w0 + bq_b1 state * bq_y1 state + bq_b2 state * bq_y2 state;
          state1 = state\<lparr>bq_y2 := bq_y1 state\<rparr>;
          state2 = state1\<lparr>bq_y1 := w0\<rparr>
      in (output, state2))"

definition Biquad_ProcessSample :: "BiquadState_t \<Rightarrow> real \<Rightarrow> real \<times> BiquadState_t" where
  "Biquad_ProcessSample state input = Biquad_DirectFormII state input"



section \<open>Limiter processing (DSP/Src/limiter\_proc.c)\<close>

text \<open>
  \<^verbatim>\<open>Limiter_TypeDef\<close> is declared outside the given sources; the record has the fields
  that limiter\_proc.c reads. The array bound \<^verbatim>\<open>LIMITER_MAX_LOOKAHEAD\<close> of the lookahead
  buffer is not defined in the given sources either and is the parameter \<open>maxLA\<close> of
  the functions that use it.
\<close>

record Limiter_TypeDef =
  lc_threshold :: real
  lc_knee :: real
  lc_attackTime :: real
  lc_releaseTime :: real
  lc_lookaheadTime :: nat
  lc_enableLookahead :: bool
  lc_enableISP :: bool
  lc_adaptiveRelease :: bool

record LimiterState_Internal =
  ls_currentGain :: real
  ls_peakLevel :: real
  ls_releaseTime :: real
  ls_attackTime :: real
  ls_holdCounter :: nat
  ls_targetGain :: real
  ls_envelope :: real
  ls_lookaheadBuffer :: "nat \<Rightarrow> real"
  ls_lookaheadIndex :: nat
  ls_prevSample :: real

datatype LimiterStatus_TypeDef = LIMITER_OK | LIMITER_ERROR

definition MIN_GAIN_DB :: real where
  "MIN_GAIN_DB = - 24"

definition ENVELOPE_SMOOTHING :: real where
  "ENVELOPE_SMOOTHING = 9 / 10"

definition DEFAULT_HOLD_SAMPLES :: nat where
  "DEFAULT_HOLD_SAMPLES = 50"

definition DB_TO_LINEAR :: "real \<Rightarrow> real" where
  "DB_TO_LINEAR x = 10 powr (x / 20)"

definition Limiter_ApplyInterSampleProtection ::
  "Limiter_TypeDef \<Rightarrow> LimiterState_Internal \<Rightarrow> real \<Rightarrow> real" where
  "Limiter_ApplyInterSampleProtection config st inputSample =
     (if \<not> lc_enableISP config then inputSample
      else
        let prevSample = ls_prevSample st;
            predictedPeak =
              (if (inputSample > 0 \<and> prevSample > 0) \<or> (inputSample < 0 \<and> prevSample < 0)
               then (if \<bar>inputSample\<bar> > \<bar>prevSample\<bar>
                     then inputSample * (105 / 100)
                     else prevSample * (105 / 100))
               else
                 let t = \<bar>prevSample\<bar> / (\<bar>prevSample\<bar> + \<bar>inputSample\<bar>);
                     maxPossibleValue = \<bar>prevSample\<bar> * (1 - t) + \<bar>inputSample\<bar> * t
                 in maxPossibleValue * (115 / 100))
        in if \<bar>predictedPeak\<bar> > \<bar>inputSample\<bar>
           then (if inputSample \<ge> 0 then predictedPeak else - predictedPeak)
           else inputSample)"

text \<open>
  The index arithmetic of the lookahead read is done in \<^verbatim>\<open>int\<close> (the operands are
  promoted), \<^verbatim>\<open>%\<close> truncates towards zero, and the result is stored in a \<^verbatim>\<open>uint16_t\<close>.
\<close>

definition c_rem :: "int \<Rightarrow> int \<Rightarrow> int" where
  "c_rem a b = (if a \<ge> 0 then a mod \<bar>b\<bar> else - ((- a) mod \<bar>b\<bar>))"

definition Limiter_ProcessLookahead ::
  "nat \<Rightarrow> Limiter_TypeDef \<Rightarrow> LimiterState_Internal \<Rightarrow> real \<Rightarrow> real \<times> LimiterState_Internal" where
  "Limiter_ProcessLookahead maxLA config st inputSample =
     (if \<not> lc_enableLookahead config \<or> lc_lookaheadTime config \<le> 0 then (inputSample, st)
      else
        let buf = (ls_lookaheadBuffer st)(ls_lookaheadIndex st := inputSample);
            outputIndex =
              nat ((c_rem (int (ls_lookaheadIndex st) + int maxLA - int (lc_lookaheadTime config))
                          (int maxLA)) mod 65536);
            outputSample = buf outputIndex;
            st1 = st\<lparr>ls_lookaheadBuffer := buf,
                     ls_lookaheadIndex := (ls_lookaheadIndex st + 1) mod maxLA\<rparr>
        in (outputSample, st1))"

definition Limiter_CalculateGainReduction ::
  "Limiter_TypeDef \<Rightarrow> LimiterState_Internal \<Rightarrow> real \<Rightarrow> real \<times> LimiterState_Internal" where
  "Limiter_CalculateGainReduction config st inputLevel =
     (if inputLevel > lc_threshold config then
        let g0 = lc_threshold config / inputLevel;
            g1 = (if lc_knee config > 0 then
                    let kneeStart = lc_threshold config - (lc_knee config / 2);
                        kneeEnd = lc_threshold config + (lc_knee config / 2)
                    in if inputLevel < kneeEnd
                       then (let kneeRatio = (inputLevel - kneeStart) / lc_knee config
                             in 1 - kneeRatio * (1 - g0))
                       else g0
                  else g0);
            gainReductionDB = 20 * log 10 g1;
            g2 = (if gainReductionDB < MIN_GAIN_DB then DB_TO_LINEAR MIN_GAIN_DB else g1)
        in (g2, st\<lparr>ls_targetGain := g2, ls_holdCounter := DEFAULT_HOLD_SAMPLES\<rparr>)
      else
        let st1 = st\<lparr>ls_targetGain := 1\<rparr>;
            st2 = (if ls_holdCounter st1 > 0
                   then st1\<lparr>ls_holdCounter := ls_holdCounter st1 - 1\<rparr> else st1)
        in (1, st2))"

definition Limiter_UpdateReleaseEnvelope ::
  "Limiter_TypeDef \<Rightarrow> LimiterState_Internal \<Rightarrow> real \<Rightarrow> LimiterState_Internal" where
  "Limiter_UpdateReleaseEnvelope config st gainReduction =
     (if ls_holdCounter st > 0 then st\<lparr>ls_currentGain := ls_targetGain st\<rparr>
      else if gainReduction < ls_currentGain st then
        let attackCoeff = 1 / ls_attackTime st
        in st\<lparr>ls_currentGain := ls_currentGain st * (1 - attackCoeff) + gainReduction * attackCoeff\<rparr>
      else if gainReduction > ls_currentGain st then
        let releaseCoeff = 1 / ls_releaseTime st;
            st1 = st\<lparr>ls_currentGain :=
                       ls_currentGain st * (1 - releaseCoeff) + gainReduction * releaseCoeff\<rparr>
        in if lc_adaptiveRelease config then
             let adaptiveScale = 1 + 5 * (1 - ls_currentGain st1)
             in st1\<lparr>ls_currentGain :=
                       ls_currentGain st1 * (1 - releaseCoeff / adaptiveScale) +
                       gainReduction * releaseCoeff / adaptiveScale\<rparr>
           else st1
      else st)"

definition Limiter_ProcessSample ::
  "nat \<Rightarrow> Limiter_TypeDef \<Rightarrow> LimiterState_Internal \<Rightarrow> real \<Rightarrow> real \<times> LimiterState_Internal" where
  "Limiter_ProcessSample maxLA config st inputSample =
     (let p0 = Limiter_ApplyInterSampleProtection config st inputSample;
          (processedSample, st1) = Limiter_ProcessLookahead maxLA config st p0;
          sampleAbs = \<bar>processedSample\<bar>;
          st2 = st1\<lparr>ls_peakLevel :=
                     max sampleAbs (ENVELOPE_SMOOTHING * ls_peakLevel st1 +
                                    (1 - ENVELOPE_SMOOTHING) * sampleAbs)\<rparr>;
          (gainReduction, st3) = Limiter_CalculateGainReduction config st2 (ls_peakLevel st2);
          out0 = processedSample * ls_currentGain st3;
          st4 = Limiter_UpdateReleaseEnvelope config st3 gainReduction;
          out1 = (if out0 > 1 then 1 else out0);
          out2 = (if out1 < - 1 then - 1 else out1);
          st5 = st4\<lparr>ls_prevSample := inputSample\<rparr>
      in (out2, st5))"

text \<open>The module state: the two \<^verbatim>\<open>static\<close> variables of limiter\_proc.c and the
  configuration that \<^verbatim>\<open>Limiter_GetConfig\<close> hands out per channel.\<close>

record LimiterModule =
  limiterState :: "nat \<Rightarrow> LimiterState_Internal"
  limiterInitialized :: bool
  limiterConfig :: "nat \<Rightarrow> Limiter_TypeDef"

definition Limiter_CalculateTimingParameters :: "LimiterModule \<Rightarrow> nat \<Rightarrow> LimiterModule" where
  "Limiter_CalculateTimingParameters m channel =
     (let config = limiterConfig m channel;
          sampleRate = real AUDIO_SAMPLE_RATE;
          st = limiterState m channel;
          a = (lc_attackTime config / 1000) * sampleRate;
          st1 = st\<lparr>ls_attackTime := (if a < 1 then 1 else a)\<rparr>;
          r = (lc_releaseTime config / 1000) * sampleRate;
          st2 = st1\<lparr>ls_releaseTime := (if r < 1 then 1 else r)\<rparr>
      in m\<lparr>limiterState := (limiterState m)(channel := st2)\<rparr>)"

text \<open>\<^verbatim>\<open>Limiter_Init\<close> does not read its \<^verbatim>\<open>config\<close> argument; the argument is left out.\<close>

definition Limiter_Init :: "nat \<Rightarrow> LimiterModule \<Rightarrow> nat \<Rightarrow> LimiterStatus_TypeDef \<times> LimiterModule" where
  "Limiter_Init maxLA m channel =
     (if channel \<ge> AUDIO_OUTPUT_CHANNELS then (LIMITER_ERROR, m)
      else
        let st = (limiterState m channel)
              \<lparr>ls_currentGain := 1, ls_peakLevel := 0, ls_targetGain := 1, ls_envelope := 0,
               ls_holdCounter := 0, ls_prevSample := 0, ls_lookaheadIndex := 0\<rparr>;
            st1 = st\<lparr>ls_lookaheadBuffer :=
                       (\<lambda>i. if i < maxLA then 0 else ls_lookaheadBuffer st i)\<rparr>;
            m1 = Limiter_CalculateTimingParameters
                   (m\<lparr>limiterState := (limiterState m)(channel := st1)\<rparr>) channel
        in (LIMITER_OK, m1\<lparr>limiterInitialized := True\<rparr>))"

definition Limiter_ProcessBlock_step ::
  "nat \<Rightarrow> nat \<Rightarrow> nat \<Rightarrow> LimiterModule \<times> (nat \<Rightarrow> real) \<Rightarrow> LimiterModule \<times> (nat \<Rightarrow> real)" where
  "Limiter_ProcessBlock_step maxLA channel i = (\<lambda>(m, pData).
     let (y, st) = Limiter_ProcessSample maxLA (limiterConfig m channel)
                     (limiterState m channel) (pData i)
     in (m\<lparr>limiterState := (limiterState m)(channel := st)\<rparr>, pData(i := y)))"

definition Limiter_ProcessBlock ::
  "nat \<Rightarrow> LimiterModule \<Rightarrow> nat \<Rightarrow> (nat \<Rightarrow> real) option \<Rightarrow> nat
     \<Rightarrow> LimiterStatus_TypeDef \<times> LimiterModule \<times> (nat \<Rightarrow> real) option" where
  "Limiter_ProcessBlock maxLA m channel pData blockSize =
     (case pData of
        None \<Rightarrow> (LIMITER_ERROR, m, None)
      | Some buf \<Rightarrow>
          if \<not> limiterInitialized m \<or> channel \<ge> AUDIO_OUTPUT_CHANNELS
          then (LIMITER_ERROR, m, Some buf)
          else
            let (m1, buf1) = fold (Limiter_ProcessBlock_step maxLA channel) [0..<blockSize] (m, buf)
            in (LIMITER_OK, m1, Some buf1))"


section \<open>Output preparation (Audio/Src/audio\_driver.c)\<close>

definition AUDIO_FRAME_SIZE :: nat where
  "AUDIO_FRAME_SIZE = 64"

definition AUDIO_MAX_VALUE :: real where
  "AUDIO_MAX_VALUE = 8388607"

text \<open>The cast \<^verbatim>\<open>(int32_t)\<close> of a float truncates towards zero.\<close>

definition c_trunc :: "real \<Rightarrow> int" where
  "c_trunc x = (if x \<ge> 0 then \<lfloor>x\<rfloor> else \<lceil>x\<rceil>)"

definition FLOAT_TO_INT24 :: "real \<Rightarrow> int" where
  "FLOAT_TO_INT24 x = c_trunc (x * AUDIO_MAX_VALUE)"

record AudioDriverStatus_TypeDef =
  ad_outputGain :: "nat \<Rightarrow> real"
  ad_outputMute :: "nat \<Rightarrow> nat"

text \<open>Lines 444 to 454 of the inner loop body: the float that is converted and stored.\<close>

definition Audio_OutputSample ::
  "AudioDriverStatus_TypeDef \<Rightarrow> (nat \<Rightarrow> nat \<Rightarrow> real) \<Rightarrow> nat \<Rightarrow> nat \<Rightarrow> real" where
  "Audio_OutputSample audioStatus channels ch i =
     (let s0 = channels ch i;
          s1 = (if ad_outputMute audioStatus ch \<noteq> 0 then 0 else s0 * ad_outputGain audioStatus ch)
      in CLAMP s1 (- 1) 1)"

definition Audio_PrepareOutputSamples_ch ::
  "AudioDriverStatus_TypeDef \<Rightarrow> nat \<Rightarrow> (nat \<Rightarrow> nat \<Rightarrow> real) \<Rightarrow> nat \<Rightarrow> nat
     \<Rightarrow> nat \<times> (nat \<Rightarrow> int) \<Rightarrow> nat \<times> (nat \<Rightarrow> int)" where
  "Audio_PrepareOutputSamples_ch audioStatus offset channels i ch = (\<lambda>(sample_idx, dma).
     (sample_idx + 1,
      dma(offset + sample_idx := FLOAT_TO_INT24 (Audio_OutputSample audioStatus channels ch i))))"

definition Audio_PrepareOutputSamples_frame ::
  "AudioDriverStatus_TypeDef \<Rightarrow> nat \<Rightarrow> (nat \<Rightarrow> nat \<Rightarrow> real) \<Rightarrow> nat
     \<Rightarrow> nat \<times> (nat \<Rightarrow> int) \<Rightarrow> nat \<times> (nat \<Rightarrow> int)" where
  "Audio_PrepareOutputSamples_frame audioStatus offset channels i acc =
     fold (Audio_PrepareOutputSamples_ch audioStatus offset channels i)
          [0..<AUDIO_OUTPUT_CHANNELS] acc"

definition Audio_PrepareOutputSamples ::
  "AudioDriverStatus_TypeDef \<Rightarrow> (nat \<Rightarrow> int) \<Rightarrow> nat \<Rightarrow> (nat \<Rightarrow> nat \<Rightarrow> real) \<Rightarrow> (nat \<Rightarrow> int)" where
  "Audio_PrepareOutputSamples audioStatus outputDmaBuffer offset channels =
     snd (fold (Audio_PrepareOutputSamples_frame audioStatus offset channels)
               [0..<AUDIO_FRAME_SIZE] (0, outputDmaBuffer))"


section \<open>Delay line (DSP/Src/delay\_init.c, DSP/Src/delay\_proc.c)\<close>

text \<open>
  \<^verbatim>\<open>DelayInstance_TypeDef\<close>, \<^verbatim>\<open>MAX_DELAY_CHANNELS\<close> and \<^verbatim>\<open>SPEED_OF_SOUND_M_PER_SEC\<close>
  are declared outside the given sources. The record has the fields the two files use; the
  channel count is the four channels \<open>0-3\<close> of the functions' documentation, the speed of
  sound the 343 m/s the comment in \<^verbatim>\<open>Delay_UpdateTemperatureCompensation\<close> names.
  A \<^verbatim>\<open>uint8_t\<close> flag that the source only tests for zero is a \<open>bool\<close>.

  A result \<open>None\<close> of a processing function stands for a run that C leaves undefined:
  a \<^verbatim>\<open>NULL\<close> buffer is dereferenced, the buffer size is zero (the wrap-around loop does
  not end, the modulo divides by zero), or the read position does not fit \<^verbatim>\<open>int32_t\<close>.
\<close>

datatype DelayUnit_TypeDef = DELAY_UNIT_MS | DELAY_UNIT_SAMPLES | DELAY_UNIT_CM | DELAY_UNIT_INCH

datatype DelayInterpolation_TypeDef = DELAY_INTERPOLATION_LINEAR | DELAY_INTERPOLATION_CUBIC

definition MAX_DELAY_CHANNELS :: nat where
  "MAX_DELAY_CHANNELS = 4"

definition SPEED_OF_SOUND_M_PER_SEC :: real where
  "SPEED_OF_SOUND_M_PER_SEC = 343"

definition MINIMUM_BUFFER_PADDING :: nat where
  "MINIMUM_BUFFER_PADDING = 16"

record DelayInstance_TypeDef =
  di_isActive :: bool
  di_bufferSize :: nat
  di_writeIndex :: nat
  di_sampleRate :: nat
  di_maxDelayMs :: nat
  di_currentDelayMs :: real
  di_currentDelayDistance :: real
  di_delayUnit :: DelayUnit_TypeDef
  di_phaseInvert :: bool
  di_enabled :: bool
  di_filterCoeff :: real
  di_prevSample :: real
  di_buffer :: "(nat \<Rightarrow> real) option"
  di_delaySamples :: real

record DelayConfig_TypeDef =
  dc_sampleRate :: nat
  dc_maxDelayMs :: nat

record DelayChannelConfig_TypeDef =
  dcc_delayValue :: real
  dcc_delayUnit :: DelayUnit_TypeDef
  dcc_phaseInvert :: bool
  dcc_enabled :: bool

record DelayModule =
  delayInstances :: "nat \<Rightarrow> DelayInstance_TypeDef"
  isDelaySystemInitialized :: bool
  tempCompensationFactor :: real
  interpolationMode :: DelayInterpolation_TypeDef

definition memset0 :: "(nat \<Rightarrow> real) \<Rightarrow> nat \<Rightarrow> (nat \<Rightarrow> real)" where
  "memset0 buf n = (\<lambda>i. if i < n then 0 else buf i)"

definition CalculateBufferSizeBytes :: "nat \<Rightarrow> nat \<Rightarrow> nat" where
  "CalculateBufferSizeBytes maxDelayMs sampleRate =
     (let maxDelaySamples = ((maxDelayMs * sampleRate) mod 2 ^ 32) div 1000;
          bufferSize = (maxDelaySamples + MINIMUM_BUFFER_PADDING) mod 2 ^ 32
      in bufferSize)"

text \<open>\<^verbatim>\<open>malloc\<close> is the parameter \<open>malloc\<close>: for each channel either \<^verbatim>\<open>NULL\<close> or a block
  of indeterminate contents.\<close>

definition AllocateDelayBuffer ::
  "(nat \<Rightarrow> (nat \<Rightarrow> real) option) \<Rightarrow> DelayModule \<Rightarrow> nat \<Rightarrow> HAL_StatusTypeDef \<times> DelayModule" where
  "AllocateDelayBuffer malloc m channel =
     (let inst = delayInstances m channel;
          bufferSize = CalculateBufferSizeBytes (di_maxDelayMs inst) (di_sampleRate inst);
          inst1 = inst\<lparr>di_buffer := malloc channel\<rparr>
      in if di_buffer inst1 = None
         then (HAL_ERROR, m\<lparr>delayInstances := (delayInstances m)(channel := inst1)\<rparr>)
         else (HAL_OK, m\<lparr>delayInstances :=
                 (delayInstances m)(channel := inst1\<lparr>di_bufferSize := bufferSize\<rparr>)\<rparr>))"

definition Delay_DeInit :: "DelayModule \<Rightarrow> HAL_StatusTypeDef \<times> DelayModule" where
  "Delay_DeInit m =
     (if \<not> isDelaySystemInitialized m then (HAL_OK, m)
      else (HAL_OK, m\<lparr>delayInstances :=
                        (\<lambda>i. if i < MAX_DELAY_CHANNELS
                              then (delayInstances m i)\<lparr>di_buffer := None\<rparr>
                              else delayInstances m i),
                      isDelaySystemInitialized := False\<rparr>))"

fun Delay_Init_loop ::
  "(nat \<Rightarrow> (nat \<Rightarrow> real) option) \<Rightarrow> nat \<Rightarrow> nat \<Rightarrow> nat \<Rightarrow> nat \<Rightarrow> DelayModule
     \<Rightarrow> HAL_StatusTypeDef \<times> DelayModule" where
  "Delay_Init_loop malloc sampleRate maxDelayMs 0 i m = (HAL_OK, m)"
| "Delay_Init_loop malloc sampleRate maxDelayMs (Suc n) i m =
     (let inst = (delayInstances m i)
            \<lparr>di_isActive := False, di_bufferSize := 0, di_writeIndex := 0,
             di_sampleRate := sampleRate, di_maxDelayMs := maxDelayMs,
             di_currentDelayMs := 0, di_currentDelayDistance := 0,
             di_delayUnit := DELAY_UNIT_MS, di_phaseInvert := False, di_enabled := False,
             di_filterCoeff := 7 / 10, di_prevSample := 0\<rparr>;
          m1 = m\<lparr>delayInstances := (delayInstances m)(i := inst)\<rparr>;
          (status, m2) = AllocateDelayBuffer malloc m1 i
      in if status \<noteq> HAL_OK then (HAL_ERROR, snd (Delay_DeInit m2))
         else
           let inst2 = delayInstances m2 i;
               inst3 = inst2\<lparr>di_buffer :=
                          map_option (\<lambda>b. memset0 b (di_bufferSize inst2)) (di_buffer inst2)\<rparr>;
               m3 = m2\<lparr>delayInstances := (delayInstances m2)(i := inst3)\<rparr>
           in Delay_Init_loop malloc sampleRate maxDelayMs n (Suc i) m3)"

definition Delay_Init ::
  "(nat \<Rightarrow> (nat \<Rightarrow> real) option) \<Rightarrow> DelayModule \<Rightarrow> DelayConfig_TypeDef option
     \<Rightarrow> HAL_StatusTypeDef \<times> DelayModule" where
  "Delay_Init malloc m config =
     (case config of
        None \<Rightarrow> (HAL_ERROR, m)
      | Some c \<Rightarrow>
          let (status, m1) =
                Delay_Init_loop malloc (dc_sampleRate c) (dc_maxDelayMs c) MAX_DELAY_CHANNELS 0 m
          in if status \<noteq> HAL_OK then (HAL_ERROR, m1)
             else (HAL_OK, m1\<lparr>tempCompensationFactor := 1, isDelaySystemInitialized := True\<rparr>))"

definition ApplyDelaySettings :: "DelayModule \<Rightarrow> nat \<Rightarrow> DelayModule" where
  "ApplyDelaySettings m channel =
     (if channel \<ge> MAX_DELAY_CHANNELS \<or> \<not> isDelaySystemInitialized m then m
      else
        let inst = delayInstances m channel;
            compensatedDelayMs = di_currentDelayMs inst / tempCompensationFactor m;
            delaySamplesFloat = (compensatedDelayMs * real (di_sampleRate inst)) / 1000
        in m\<lparr>delayInstances :=
               (delayInstances m)(channel := inst\<lparr>di_delaySamples := delaySamplesFloat\<rparr>)\<rparr>)"

definition ConvertDistanceToTime :: "real \<Rightarrow> DelayUnit_TypeDef \<Rightarrow> real" where
  "ConvertDistanceToTime distance unit =
     (if unit = DELAY_UNIT_CM then ((distance / 100) / SPEED_OF_SOUND_M_PER_SEC) * 1000
      else if unit = DELAY_UNIT_INCH
        then ((distance * (254 / 10000)) / SPEED_OF_SOUND_M_PER_SEC) * 1000
      else distance)"

definition Delay_ConfigChannel ::
  "DelayModule \<Rightarrow> nat \<Rightarrow> DelayChannelConfig_TypeDef option \<Rightarrow> HAL_StatusTypeDef \<times> DelayModule" where
  "Delay_ConfigChannel m channel config =
     (if channel \<ge> MAX_DELAY_CHANNELS then (HAL_ERROR, m)
      else if \<not> isDelaySystemInitialized m then (HAL_ERROR, m)
      else case config of
        None \<Rightarrow> (HAL_ERROR, m)
      | Some c \<Rightarrow>
          let inst = delayInstances m channel;
              inst1 =
                (if dcc_delayUnit c = DELAY_UNIT_CM \<or> dcc_delayUnit c = DELAY_UNIT_INCH
                 then inst\<lparr>di_currentDelayDistance := dcc_delayValue c,
                           di_currentDelayMs :=
                             ConvertDistanceToTime (dcc_delayValue c) (dcc_delayUnit c)\<rparr>
                 else inst\<lparr>di_currentDelayMs := dcc_delayValue c,
                           di_currentDelayDistance :=
                             dcc_delayValue c * SPEED_OF_SOUND_M_PER_SEC / 1000 * 100\<rparr>);
              inst2 = inst1\<lparr>di_delayUnit := dcc_delayUnit c,
                            di_phaseInvert := dcc_phaseInvert c,
                            di_enabled := dcc_enabled c\<rparr>;
              m1 = ApplyDelaySettings (m\<lparr>delayInstances := (delayInstances m)(channel := inst2)\<rparr>)
                     channel;
              m2 = m1\<lparr>delayInstances :=
                        (delayInstances m1)(channel := (delayInstances m1 channel)\<lparr>di_isActive := True\<rparr>)\<rparr>
          in (HAL_OK, m2))"

definition Delay_SetTime :: "DelayModule \<Rightarrow> nat \<Rightarrow> real \<Rightarrow> HAL_StatusTypeDef \<times> DelayModule" where
  "Delay_SetTime m channel delayMs =
     (if channel \<ge> MAX_DELAY_CHANNELS \<or> \<not> di_isActive (delayInstances m channel)
      then (HAL_ERROR, m)
      else if delayMs < 0 \<or> delayMs > real (di_maxDelayMs (delayInstances m channel))
      then (HAL_ERROR, m)
      else
        let inst = (delayInstances m channel)
              \<lparr>di_currentDelayMs := delayMs, di_delayUnit := DELAY_UNIT_MS,
               di_currentDelayDistance := delayMs * SPEED_OF_SOUND_M_PER_SEC / 1000 * 100\<rparr>
        in (HAL_OK, ApplyDelaySettings (m\<lparr>delayInstances := (delayInstances m)(channel := inst)\<rparr>)
                      channel))"

text \<open>\<^verbatim>\<open>Delay_GetSettings\<close>, with the output structure as the returned value.\<close>

definition Delay_GetSettings ::
  "DelayModule \<Rightarrow> nat \<Rightarrow> DelayChannelConfig_TypeDef option
     \<Rightarrow> HAL_StatusTypeDef \<times> DelayChannelConfig_TypeDef option" where
  "Delay_GetSettings m channel config =
     (case config of
        None \<Rightarrow> (HAL_ERROR, None)
      | Some c \<Rightarrow>
          if channel \<ge> MAX_DELAY_CHANNELS \<or> \<not> di_isActive (delayInstances m channel)
          then (HAL_ERROR, Some c)
          else
            let inst = delayInstances m channel;
                c1 = c\<lparr>dcc_enabled := di_enabled inst, dcc_delayUnit := di_delayUnit inst,
                        dcc_phaseInvert := di_phaseInvert inst\<rparr>;
                c2 = (if dcc_delayUnit c1 = DELAY_UNIT_MS
                      then c1\<lparr>dcc_delayValue := di_currentDelayMs inst\<rparr>
                      else c1\<lparr>dcc_delayValue := di_currentDelayDistance inst\<rparr>)
            in (HAL_OK, Some c2))"

definition Delay_FlushBuffer :: "DelayModule \<Rightarrow> nat \<Rightarrow> HAL_StatusTypeDef \<times> DelayModule" where
  "Delay_FlushBuffer m channel =
     (if channel \<ge> MAX_DELAY_CHANNELS \<or> \<not> di_isActive (delayInstances m channel)
      then (HAL_ERROR, m)
      else
        let inst = delayInstances m channel;
            inst1 = inst\<lparr>di_buffer := map_option (\<lambda>b. memset0 b (di_bufferSize inst)) (di_buffer inst),
                         di_writeIndex := 0, di_prevSample := 0\<rparr>
        in (HAL_OK, m\<lparr>delayInstances := (delayInstances m)(channel := inst1)\<rparr>))"

text \<open>
  \<^verbatim>\<open>ModuloBufferSize\<close>: the index is an \<^verbatim>\<open>int32_t\<close>, the size a \<^verbatim>\<open>uint32_t\<close>; both the
  addition and the remainder are computed in \<^verbatim>\<open>uint32_t\<close>.
\<close>

definition ModuloBufferSize :: "int \<Rightarrow> nat \<Rightarrow> nat" where
  "ModuloBufferSize index bufferSize =
     (let index1 = (if index < 0 then index + int bufferSize else index)
      in nat ((index1 mod 2 ^ 32) mod int bufferSize))"

definition InterpolateLinear :: "(nat \<Rightarrow> real) \<Rightarrow> nat \<Rightarrow> nat \<Rightarrow> real \<Rightarrow> real" where
  "InterpolateLinear buffer bufferSize readIndex fraction =
     (let sample1 = buffer readIndex;
          sample2 = buffer (ModuloBufferSize (int readIndex + 1) bufferSize)
      in sample1 + fraction * (sample2 - sample1))"

definition InterpolateCubic :: "(nat \<Rightarrow> real) \<Rightarrow> nat \<Rightarrow> nat \<Rightarrow> real \<Rightarrow> real" where
  "InterpolateCubic buffer bufferSize readIndex fraction =
     (let y0 = buffer (ModuloBufferSize (int readIndex - 1) bufferSize);
          y1 = buffer readIndex;
          y2 = buffer (ModuloBufferSize (int readIndex + 1) bufferSize);
          y3 = buffer (ModuloBufferSize (int readIndex + 2) bufferSize);
          a0 = y3 - y2 - y0 + y1;
          a1 = y0 - y1 - a0;
          a2 = y2 - y0;
          a3 = y1;
          frac2 = fraction * fraction
      in a0 * fraction * frac2 + a1 * frac2 + a2 * fraction + a3)"

text \<open>The loop \<^verbatim>\<open>while (readPos < 0) readPos += bufferSize\<close>; it does not return when
  the size is zero and the position negative.\<close>

partial_function (option) wrap_readPos :: "real \<Rightarrow> real \<Rightarrow> real option" where
  "wrap_readPos readPos bufferSize =
     (if readPos < 0 then wrap_readPos (readPos + bufferSize) bufferSize else Some readPos)"

definition ProcessSampleWithDelay ::
  "DelayInterpolation_TypeDef \<Rightarrow> DelayInstance_TypeDef \<Rightarrow> real
     \<Rightarrow> (real \<times> DelayInstance_TypeDef) option" where
  "ProcessSampleWithDelay mode instance input =
     (case di_buffer instance of
        None \<Rightarrow> None
      | Some buffer0 \<Rightarrow>
          if di_bufferSize instance = 0 then None
          else
            let buffer = buffer0(di_writeIndex instance := input)
            in case wrap_readPos (real (di_writeIndex instance) - di_delaySamples instance)
                      (real (di_bufferSize instance)) of
                 None \<Rightarrow> None
               | Some readPos \<Rightarrow>
                   if c_trunc readPos \<ge> 2 ^ 31 then None
                   else
                     let readIndex0 = c_trunc readPos;
                         fraction = readPos - real_of_int readIndex0;
                         readIndex = ModuloBufferSize readIndex0 (di_bufferSize instance);
                         out0 = (if mode = DELAY_INTERPOLATION_LINEAR
                                 then InterpolateLinear buffer (di_bufferSize instance) readIndex fraction
                                 else InterpolateCubic buffer (di_bufferSize instance) readIndex fraction);
                         out1 = (if di_phaseInvert instance then - out0 else out0);
                         out2 = out1 * (1 - di_filterCoeff instance) +
                                di_prevSample instance * di_filterCoeff instance;
                         instance1 = instance\<lparr>di_buffer := Some buffer, di_prevSample := out2,
                                          di_writeIndex :=
                                            ModuloBufferSize (int (di_writeIndex instance) + 1)
                                              (di_bufferSize instance)\<rparr>
                     in Some (out2, instance1))"

fun Delay_Process_loop ::
  "DelayInterpolation_TypeDef \<Rightarrow> nat \<Rightarrow> nat \<Rightarrow> DelayInstance_TypeDef \<Rightarrow> (nat \<Rightarrow> real)
     \<Rightarrow> (DelayInstance_TypeDef \<times> (nat \<Rightarrow> real)) option" where
  "Delay_Process_loop mode 0 i instance pData = Some (instance, pData)"
| "Delay_Process_loop mode (Suc n) i instance pData =
     (case ProcessSampleWithDelay mode instance (pData i) of
        None \<Rightarrow> None
      | Some (y, instance1) \<Rightarrow> Delay_Process_loop mode n (Suc i) instance1 (pData(i := y)))"

definition Delay_Process ::
  "DelayModule \<Rightarrow> nat \<Rightarrow> (nat \<Rightarrow> real) option \<Rightarrow> nat
     \<Rightarrow> (HAL_StatusTypeDef \<times> DelayModule \<times> (nat \<Rightarrow> real) option) option" where
  "Delay_Process m channel pData sz =
     (case pData of
        None \<Rightarrow> Some (HAL_ERROR, m, None)
      | Some buf \<Rightarrow>
          if channel \<ge> MAX_DELAY_CHANNELS \<or> sz = 0 then Some (HAL_ERROR, m, Some buf)
          else if \<not> di_isActive (delayInstances m channel) \<or> \<not> di_enabled (delayInstances m channel)
          then Some (HAL_OK, m, Some buf)
          else
            case Delay_Process_loop (interpolationMode m) sz 0 (delayInstances m channel) buf of
              None \<Rightarrow> None
            | Some (instance1, buf1) \<Rightarrow>
                Some (HAL_OK, m\<lparr>delayInstances := (delayInstances m)(channel := instance1)\<rparr>,
                      Some buf1))"


section \<open>Compressor (DSP/Src/compressor\_proc.c)\<close>





















section \<open>Frame entry of the delay line (DSP/Src/delay\_proc.c)\<close>




section \<open>Crossover (DSP/Src/crossover\_filter.c)\<close>

text \<open>
  crossover\_filter.c calls functions that the given sources do not define:
  \<^verbatim>\<open>Audio_GetSampleRate\<close>, the six per-stage designers \<^verbatim>\<open>Butterworth_LowPass\<close> \dots
  \<^verbatim>\<open>Bessel_HighPass\<close>, and \<^verbatim>\<open>Biquad_Init\<close>, \<^verbatim>\<open>Biquad_Reset\<close>, \<^verbatim>\<open>Biquad_Process\<close> on
  the type \<^verbatim>\<open>BiquadFilter_TypeDef\<close>. They are the fields of the record below, over a type
  \<open>'s\<close> of biquad stages and a type \<open>'c\<close> of coefficient sets; the last field is the
  indeterminate initial content of the local variable \<^verbatim>\<open>coeffs\<close>. The constructors
  \<open>CROSSOVER_TYPE_INVALID\<close> and \<open>CROSSOVER_MODE_INVALID\<close> stand for the enum values
  above the last named one, which the setters reject and the \<^verbatim>\<open>default\<close> branches catch.
\<close>

datatype CrossoverFilterType_TypeDef =
  CROSSOVER_TYPE_BUTTERWORTH | CROSSOVER_TYPE_LINKWITZ_RILEY | CROSSOVER_TYPE_BESSEL
  | CROSSOVER_TYPE_INVALID

datatype CrossoverFilterMode_TypeDef =
  CROSSOVER_MODE_LOWPASS | CROSSOVER_MODE_HIGHPASS | CROSSOVER_MODE_BANDPASS
  | CROSSOVER_MODE_FULLRANGE | CROSSOVER_MODE_INVALID

datatype CrossoverFrequencyType_TypeDef = CROSSOVER_FREQ_LOW | CROSSOVER_FREQ_HIGH

record CrossoverConfig_TypeDef =
  xc_type :: CrossoverFilterType_TypeDef
  xc_filterMode :: CrossoverFilterMode_TypeDef
  xc_lowFrequency :: real
  xc_highFrequency :: real
  xc_order :: "8 word"

record 's FilterChain_TypeDef =
  fch_stages :: "nat \<Rightarrow> 's"
  fch_numStages :: nat
  fch_gain :: real

record 's CrossoverModule =
  crossoverConfig :: "nat \<Rightarrow> CrossoverConfig_TypeDef"
  highpassFilters :: "nat \<Rightarrow> 's FilterChain_TypeDef"
  lowpassFilters :: "nat \<Rightarrow> 's FilterChain_TypeDef"
  bandpassHighFilters :: "nat \<Rightarrow> 's FilterChain_TypeDef"
  bandpassLowFilters :: "nat \<Rightarrow> 's FilterChain_TypeDef"

record ('s, 'c) CrossoverExternals =
  ext_Audio_GetSampleRate :: real
  ext_Butterworth_LowPass :: "'c \<Rightarrow> nat \<Rightarrow> nat \<Rightarrow> real \<Rightarrow> real \<Rightarrow> 'c"
  ext_Butterworth_HighPass :: "'c \<Rightarrow> nat \<Rightarrow> nat \<Rightarrow> real \<Rightarrow> real \<Rightarrow> 'c"
  ext_LinkwitzRiley_LowPass :: "'c \<Rightarrow> nat \<Rightarrow> nat \<Rightarrow> real \<Rightarrow> real \<Rightarrow> 'c"
  ext_LinkwitzRiley_HighPass :: "'c \<Rightarrow> nat \<Rightarrow> nat \<Rightarrow> real \<Rightarrow> real \<Rightarrow> 'c"
  ext_Bessel_LowPass :: "'c \<Rightarrow> nat \<Rightarrow> nat \<Rightarrow> real \<Rightarrow> real \<Rightarrow> 'c"
  ext_Bessel_HighPass :: "'c \<Rightarrow> nat \<Rightarrow> nat \<Rightarrow> real \<Rightarrow> real \<Rightarrow> 'c"
  ext_Biquad_Init :: "'s \<Rightarrow> 'c \<Rightarrow> 's"
  ext_Biquad_Reset :: "'s \<Rightarrow> 's"
  ext_Biquad_Process :: "'s \<Rightarrow> real \<Rightarrow> real \<times> 's"
  ext_coeffs_uninit :: 'c

definition MAX_FILTER_STAGES :: nat where
  "MAX_FILTER_STAGES = 8"


definition CROSSOVER_MIN_FREQ :: real where
  "CROSSOVER_MIN_FREQ = 20"

definition CROSSOVER_MAX_FREQ :: real where
  "CROSSOVER_MAX_FREQ = 20000"

definition GetNumStagesForOrder :: "8 word \<Rightarrow> nat" where
  "GetNumStagesForOrder order =
     (let n0 = unat order div 2;
          n1 = (if unat order mod 2 \<noteq> 0 then n0 + 1 else n0)
      in if n1 > MAX_FILTER_STAGES then MAX_FILTER_STAGES else n1)"

definition ComputeGainCompensation :: "CrossoverFilterType_TypeDef \<Rightarrow> 8 word \<Rightarrow> real" where
  "ComputeGainCompensation filterType order =
     (case filterType of
        CROSSOVER_TYPE_BUTTERWORTH \<Rightarrow> 1
      | CROSSOVER_TYPE_LINKWITZ_RILEY \<Rightarrow>
          (if unat order = 2 then 9 / 10
           else if unat order = 4 then 95 / 100
           else if unat order \<ge> 6 then 1
           else 1)
      | CROSSOVER_TYPE_BESSEL \<Rightarrow> (if unat order \<ge> 4 then 105 / 100 else 1)
      | CROSSOVER_TYPE_INVALID \<Rightarrow> 1)"

definition ClearFilterHistory :: "('s \<Rightarrow> 's) \<Rightarrow> 's FilterChain_TypeDef \<Rightarrow> 's FilterChain_TypeDef" where
  "ClearFilterHistory reset chain =
     fold (\<lambda>i f. f\<lparr>fch_stages := (fch_stages f)(i := reset (fch_stages f i))\<rparr>)
          [0..<fch_numStages chain] chain"

definition Crossover_ResetFilterState ::
  "('s, 'c) CrossoverExternals \<Rightarrow> 's CrossoverModule \<Rightarrow> nat \<Rightarrow> 's CrossoverModule" where
  "Crossover_ResetFilterState ext m outputChannel =
     (if outputChannel \<ge> AUDIO_OUTPUT_CHANNELS then m
      else m\<lparr>highpassFilters := (highpassFilters m)
                 (outputChannel := ClearFilterHistory (ext_Biquad_Reset ext) (highpassFilters m outputChannel)),
             lowpassFilters := (lowpassFilters m)
                 (outputChannel := ClearFilterHistory (ext_Biquad_Reset ext) (lowpassFilters m outputChannel)),
             bandpassHighFilters := (bandpassHighFilters m)
                 (outputChannel := ClearFilterHistory (ext_Biquad_Reset ext) (bandpassHighFilters m outputChannel)),
             bandpassLowFilters := (bandpassLowFilters m)
                 (outputChannel := ClearFilterHistory (ext_Biquad_Reset ext) (bandpassLowFilters m outputChannel))\<rparr>)"

text \<open>The inner \<^verbatim>\<open>switch (filterType)\<close> of the stage loops; it has no \<^verbatim>\<open>default\<close>, so
  another value leaves \<^verbatim>\<open>coeffs\<close> as it is.\<close>

definition design_stage ::
  "('s, 'c) CrossoverExternals \<Rightarrow> CrossoverFilterType_TypeDef \<Rightarrow> bool \<Rightarrow> 'c \<Rightarrow> nat \<Rightarrow> nat
     \<Rightarrow> real \<Rightarrow> real \<Rightarrow> 'c" where
  "design_stage ext filterType lowpass coeffs stage numStages freq sampleRate =
     (case filterType of
        CROSSOVER_TYPE_BUTTERWORTH \<Rightarrow>
          (if lowpass then ext_Butterworth_LowPass ext coeffs stage numStages freq sampleRate
           else ext_Butterworth_HighPass ext coeffs stage numStages freq sampleRate)
      | CROSSOVER_TYPE_LINKWITZ_RILEY \<Rightarrow>
          (if lowpass then ext_LinkwitzRiley_LowPass ext coeffs stage numStages freq sampleRate
           else ext_LinkwitzRiley_HighPass ext coeffs stage numStages freq sampleRate)
      | CROSSOVER_TYPE_BESSEL \<Rightarrow>
          (if lowpass then ext_Bessel_LowPass ext coeffs stage numStages freq sampleRate
           else ext_Bessel_HighPass ext coeffs stage numStages freq sampleRate)
      | CROSSOVER_TYPE_INVALID \<Rightarrow> coeffs)"

definition design_chain ::
  "('s, 'c) CrossoverExternals \<Rightarrow> CrossoverFilterType_TypeDef \<Rightarrow> bool \<Rightarrow> nat \<Rightarrow> real \<Rightarrow> real
     \<Rightarrow> 'c \<times> 's FilterChain_TypeDef \<Rightarrow> 'c \<times> 's FilterChain_TypeDef" where
  "design_chain ext filterType lowpass numStages freq sampleRate acc =
     fold (\<lambda>stage (coeffs, f).
             let coeffs1 = design_stage ext filterType lowpass coeffs stage numStages freq sampleRate
             in (coeffs1,
                 f\<lparr>fch_stages := (fch_stages f)(stage := ext_Biquad_Init ext (fch_stages f stage) coeffs1)\<rparr>))
          [0..<numStages] acc"

definition CalculateFilterCoefficients ::
  "('s, 'c) CrossoverExternals \<Rightarrow> 's CrossoverModule \<Rightarrow> nat \<Rightarrow> 's CrossoverModule" where
  "CalculateFilterCoefficients ext m outputChannel =
     (let sampleRate = ext_Audio_GetSampleRate ext;
          order = xc_order (crossoverConfig m outputChannel);
          lowFreq = xc_lowFrequency (crossoverConfig m outputChannel);
          highFreq = xc_highFrequency (crossoverConfig m outputChannel);
          filterType = xc_type (crossoverConfig m outputChannel);
          numStages = GetNumStagesForOrder order;
          coeffs = ext_coeffs_uninit ext;
          m0 = m\<lparr>highpassFilters := (highpassFilters m)
                      (outputChannel := (highpassFilters m outputChannel)\<lparr>fch_numStages := 0\<rparr>),
                  lowpassFilters := (lowpassFilters m)
                      (outputChannel := (lowpassFilters m outputChannel)\<lparr>fch_numStages := 0\<rparr>),
                  bandpassHighFilters := (bandpassHighFilters m)
                      (outputChannel := (bandpassHighFilters m outputChannel)\<lparr>fch_numStages := 0\<rparr>),
                  bandpassLowFilters := (bandpassLowFilters m)
                      (outputChannel := (bandpassLowFilters m outputChannel)\<lparr>fch_numStages := 0\<rparr>)\<rparr>;
          gainCompensation = ComputeGainCompensation filterType order;
          m1 =
            (case xc_filterMode (crossoverConfig m outputChannel) of
               CROSSOVER_MODE_LOWPASS \<Rightarrow>
                 (let f0 = (lowpassFilters m0 outputChannel)
                             \<lparr>fch_numStages := numStages, fch_gain := gainCompensation\<rparr>;
                      (c1, f1) = design_chain ext filterType True numStages lowFreq sampleRate (coeffs, f0)
                  in m0\<lparr>lowpassFilters := (lowpassFilters m0)(outputChannel := f1)\<rparr>)
             | CROSSOVER_MODE_HIGHPASS \<Rightarrow>
                 (let f0 = (highpassFilters m0 outputChannel)
                             \<lparr>fch_numStages := numStages, fch_gain := gainCompensation\<rparr>;
                      (c1, f1) = design_chain ext filterType False numStages highFreq sampleRate (coeffs, f0)
                  in m0\<lparr>highpassFilters := (highpassFilters m0)(outputChannel := f1)\<rparr>)
             | CROSSOVER_MODE_BANDPASS \<Rightarrow>
                 (let h0 = (bandpassHighFilters m0 outputChannel)
                             \<lparr>fch_numStages := numStages, fch_gain := gainCompensation\<rparr>;
                      l0 = (bandpassLowFilters m0 outputChannel)
                             \<lparr>fch_numStages := numStages, fch_gain := 1\<rparr>;
                      (c1, h1) = design_chain ext filterType False numStages lowFreq sampleRate (coeffs, h0);
                      (c2, l1) = design_chain ext filterType True numStages highFreq sampleRate (c1, l0)
                  in m0\<lparr>bandpassHighFilters := (bandpassHighFilters m0)(outputChannel := h1),
                         bandpassLowFilters := (bandpassLowFilters m0)(outputChannel := l1)\<rparr>)
             | CROSSOVER_MODE_FULLRANGE \<Rightarrow> m0
             | CROSSOVER_MODE_INVALID \<Rightarrow> m0)
      in Crossover_ResetFilterState ext m1 outputChannel)"

definition Crossover_SetFrequency ::
  "('s, 'c) CrossoverExternals \<Rightarrow> 's CrossoverModule \<Rightarrow> nat \<Rightarrow> CrossoverFrequencyType_TypeDef \<Rightarrow> real
     \<Rightarrow> nat \<times> 's CrossoverModule" where
  "Crossover_SetFrequency ext m outputChannel frequencyType frequency =
     (if outputChannel \<ge> AUDIO_OUTPUT_CHANNELS then (1, m)
      else if frequency < CROSSOVER_MIN_FREQ \<or> frequency > CROSSOVER_MAX_FREQ then (1, m)
      else
        let cfg = crossoverConfig m outputChannel;
            cfg1 =
              (if frequencyType = CROSSOVER_FREQ_LOW then
                 (let c = cfg\<lparr>xc_lowFrequency := frequency\<rparr>
                  in if xc_filterMode c = CROSSOVER_MODE_BANDPASS \<and> xc_lowFrequency c \<ge> xc_highFrequency c
                     then c\<lparr>xc_lowFrequency := xc_highFrequency c - 10\<rparr> else c)
               else
                 (let c = cfg\<lparr>xc_highFrequency := frequency\<rparr>
                  in if xc_filterMode c = CROSSOVER_MODE_BANDPASS \<and> xc_highFrequency c \<le> xc_lowFrequency c
                     then c\<lparr>xc_highFrequency := xc_lowFrequency c + 10\<rparr> else c));
            m1 = m\<lparr>crossoverConfig := (crossoverConfig m)(outputChannel := cfg1)\<rparr>
        in (0, CalculateFilterCoefficients ext m1 outputChannel))"


text \<open>\<^verbatim>\<open>Crossover_GetConfig\<close>, with the copied structure as the returned value.\<close>

definition Crossover_GetConfig ::
  "'s CrossoverModule \<Rightarrow> nat \<Rightarrow> CrossoverConfig_TypeDef option
     \<Rightarrow> nat \<times> CrossoverConfig_TypeDef option" where
  "Crossover_GetConfig m outputChannel config =
     (case config of
        None \<Rightarrow> (1, None)
      | Some c \<Rightarrow> if outputChannel \<ge> AUDIO_OUTPUT_CHANNELS then (1, Some c)
                  else (0, Some (crossoverConfig m outputChannel)))"





section \<open>Parametric equaliser (DSP/Src/peq\_filter.c)\<close>

text \<open>
  \<^verbatim>\<open>PEQBand_TypeDef\<close>, \<^verbatim>\<open>BiquadCoeffs_TypeDef\<close>, \<^verbatim>\<open>BiquadState_TypeDef\<close> and the
  \<^verbatim>\<open>AudioBuffer_TypeDef\<close> with \<^verbatim>\<open>outputChannels\<close> and \<^verbatim>\<open>frameSize\<close> are declared outside
  the given sources; the records have the fields peq\_filter.c uses and the biquad state is
  a type \<open>'s\<close>. The functions \<^verbatim>\<open>Biquad_SetCoefficients\<close>, \<^verbatim>\<open>Biquad_ResetState\<close> and
  \<^verbatim>\<open>Biquad_Process\<close> are not defined in the given sources: they are parameters
  (\<open>setc\<close>, \<open>rst\<close>, \<open>process\<close>) of the functions that call them. \<open>PEQ_TYPE_INVALID\<close>
  stands for the values that fall into the \<^verbatim>\<open>default\<close> branch, and \<open>uninit\<close> is the
  indeterminate initial content of the local \<^verbatim>\<open>coeffs\<close>, of which that branch leaves
  \<^verbatim>\<open>a0\<close> unset.
\<close>

datatype PEQType_TypeDef =
  PEQ_TYPE_BELL | PEQ_TYPE_LOW_SHELF | PEQ_TYPE_HIGH_SHELF | PEQ_TYPE_LOW_PASS | PEQ_TYPE_HIGH_PASS
  | PEQ_TYPE_INVALID

record PEQBand_TypeDef =
  pb_type :: PEQType_TypeDef
  pb_frequency :: real
  pb_gain :: real
  pb_q :: real
  pb_enabled :: nat

record BiquadCoeffs_TypeDef =
  bc_b0 :: real
  bc_b1 :: real
  bc_b2 :: real
  bc_a0 :: real
  bc_a1 :: real
  bc_a2 :: real

record 's PEQModule =
  PEQBands :: "nat \<Rightarrow> nat \<Rightarrow> PEQBand_TypeDef"
  PEQBiquadStates :: "nat \<Rightarrow> nat \<Rightarrow> 's"


definition PEQ_MAX_BANDS_PER_CHANNEL :: nat where
  "PEQ_MAX_BANDS_PER_CHANNEL = 5"

definition PEQ_MAX_Q_FACTOR :: real where
  "PEQ_MAX_Q_FACTOR = 20"

text \<open>The three \<open>Limit parameters to safe values\<close> lines that open each designer.\<close>

definition peq_limit_Q :: "real \<Rightarrow> real" where
  "peq_limit_Q Q = (if Q > PEQ_MAX_Q_FACTOR then PEQ_MAX_Q_FACTOR else Q)"

definition peq_limit_freq :: "real \<Rightarrow> real \<Rightarrow> real" where
  "peq_limit_freq freq fs =
     (let f1 = (if freq \<le> 0 then 20 else freq)
      in if f1 \<ge> fs / 2 then fs / 2 - 1 else f1)"

definition peq_normalize :: "BiquadCoeffs_TypeDef \<Rightarrow> BiquadCoeffs_TypeDef" where
  "peq_normalize c =
     \<lparr>bc_b0 = bc_b0 c / bc_a0 c, bc_b1 = bc_b1 c / bc_a0 c, bc_b2 = bc_b2 c / bc_a0 c,
      bc_a0 = 1, bc_a1 = bc_a1 c / bc_a0 c, bc_a2 = bc_a2 c / bc_a0 c\<rparr>"

definition PEQ_CalculateBell :: "real \<Rightarrow> real \<Rightarrow> real \<Rightarrow> real \<Rightarrow> BiquadCoeffs_TypeDef" where
  "PEQ_CalculateBell centerFreq0 gain Q0 fs =
     (let Q = peq_limit_Q Q0;
          centerFreq = peq_limit_freq centerFreq0 fs;
          A = 10 powr (gain / 40);
          omega = 2 * pi * centerFreq / fs;
          sn = sin omega;
          cs = cos omega;
          alpha = sn / (2 * Q)
      in peq_normalize
           \<lparr>bc_b0 = 1 + alpha * A, bc_b1 = - 2 * cs, bc_b2 = 1 - alpha * A,
            bc_a0 = 1 + alpha / A, bc_a1 = - 2 * cs, bc_a2 = 1 - alpha / A\<rparr>)"

definition PEQ_CalculateLowShelf :: "real \<Rightarrow> real \<Rightarrow> real \<Rightarrow> real \<Rightarrow> BiquadCoeffs_TypeDef" where
  "PEQ_CalculateLowShelf cutoffFreq0 gain Q0 fs =
     (let Q = peq_limit_Q Q0;
          cutoffFreq = peq_limit_freq cutoffFreq0 fs;
          A = 10 powr (gain / 40);
          omega = 2 * pi * cutoffFreq / fs;
          sn = sin omega;
          cs = cos omega;
          alpha = sn / (2 * Q);
          beta = 2 * sqrt A * alpha
      in peq_normalize
           \<lparr>bc_b0 = A * ((A + 1) - (A - 1) * cs + beta),
            bc_b1 = 2 * A * ((A - 1) - (A + 1) * cs),
            bc_b2 = A * ((A + 1) - (A - 1) * cs - beta),
            bc_a0 = (A + 1) + (A - 1) * cs + beta,
            bc_a1 = - 2 * ((A - 1) + (A + 1) * cs),
            bc_a2 = (A + 1) + (A - 1) * cs - beta\<rparr>)"

definition PEQ_CalculateHighShelf :: "real \<Rightarrow> real \<Rightarrow> real \<Rightarrow> real \<Rightarrow> BiquadCoeffs_TypeDef" where
  "PEQ_CalculateHighShelf cutoffFreq0 gain Q0 fs =
     (let Q = peq_limit_Q Q0;
          cutoffFreq = peq_limit_freq cutoffFreq0 fs;
          A = 10 powr (gain / 40);
          omega = 2 * pi * cutoffFreq / fs;
          sn = sin omega;
          cs = cos omega;
          alpha = sn / (2 * Q);
          beta = 2 * sqrt A * alpha
      in peq_normalize
           \<lparr>bc_b0 = A * ((A + 1) + (A - 1) * cs + beta),
            bc_b1 = - 2 * A * ((A - 1) + (A + 1) * cs),
            bc_b2 = A * ((A + 1) + (A - 1) * cs - beta),
            bc_a0 = (A + 1) - (A - 1) * cs + beta,
            bc_a1 = 2 * ((A - 1) - (A + 1) * cs),
            bc_a2 = (A + 1) - (A - 1) * cs - beta\<rparr>)"

definition PEQ_CalculateLowPass :: "real \<Rightarrow> real \<Rightarrow> real \<Rightarrow> BiquadCoeffs_TypeDef" where
  "PEQ_CalculateLowPass cutoffFreq0 Q0 fs =
     (let Q = peq_limit_Q Q0;
          cutoffFreq = peq_limit_freq cutoffFreq0 fs;
          omega = 2 * pi * cutoffFreq / fs;
          sn = sin omega;
          cs = cos omega;
          alpha = sn / (2 * Q)
      in peq_normalize
           \<lparr>bc_b0 = (1 - cs) / 2, bc_b1 = 1 - cs, bc_b2 = (1 - cs) / 2,
            bc_a0 = 1 + alpha, bc_a1 = - 2 * cs, bc_a2 = 1 - alpha\<rparr>)"

definition PEQ_CalculateHighPass :: "real \<Rightarrow> real \<Rightarrow> real \<Rightarrow> BiquadCoeffs_TypeDef" where
  "PEQ_CalculateHighPass cutoffFreq0 Q0 fs =
     (let Q = peq_limit_Q Q0;
          cutoffFreq = peq_limit_freq cutoffFreq0 fs;
          omega = 2 * pi * cutoffFreq / fs;
          sn = sin omega;
          cs = cos omega;
          alpha = sn / (2 * Q)
      in peq_normalize
           \<lparr>bc_b0 = (1 + cs) / 2, bc_b1 = - (1 + cs), bc_b2 = (1 + cs) / 2,
            bc_a0 = 1 + alpha, bc_a1 = - 2 * cs, bc_a2 = 1 - alpha\<rparr>)"

text \<open>The coefficient set that \<^verbatim>\<open>PEQ_UpdateFilterCoefficients\<close> computes for a band.\<close>

definition PEQ_band_coeffs :: "BiquadCoeffs_TypeDef \<Rightarrow> PEQBand_TypeDef \<Rightarrow> BiquadCoeffs_TypeDef" where
  "PEQ_band_coeffs uninit peqBand =
     (let fs = real AUDIO_SAMPLE_RATE
      in case pb_type peqBand of
           PEQ_TYPE_BELL \<Rightarrow>
             PEQ_CalculateBell (pb_frequency peqBand) (pb_gain peqBand) (pb_q peqBand) fs
         | PEQ_TYPE_LOW_SHELF \<Rightarrow>
             PEQ_CalculateLowShelf (pb_frequency peqBand) (pb_gain peqBand) (pb_q peqBand) fs
         | PEQ_TYPE_HIGH_SHELF \<Rightarrow>
             PEQ_CalculateHighShelf (pb_frequency peqBand) (pb_gain peqBand) (pb_q peqBand) fs
         | PEQ_TYPE_LOW_PASS \<Rightarrow> PEQ_CalculateLowPass (pb_frequency peqBand) (pb_q peqBand) fs
         | PEQ_TYPE_HIGH_PASS \<Rightarrow> PEQ_CalculateHighPass (pb_frequency peqBand) (pb_q peqBand) fs
         | PEQ_TYPE_INVALID \<Rightarrow>
             uninit\<lparr>bc_b0 := 1, bc_b1 := 0, bc_b2 := 0, bc_a1 := 0, bc_a2 := 0\<rparr>)"

definition PEQ_UpdateFilterCoefficients ::
  "('s \<Rightarrow> BiquadCoeffs_TypeDef \<Rightarrow> 's) \<Rightarrow> BiquadCoeffs_TypeDef \<Rightarrow> 's PEQModule \<Rightarrow> nat \<Rightarrow> nat
     \<Rightarrow> 's PEQModule" where
  "PEQ_UpdateFilterCoefficients setc uninit m channel band =
     (let coeffs = PEQ_band_coeffs uninit (PEQBands m channel band)
      in m\<lparr>PEQBiquadStates := (PEQBiquadStates m)
             (channel := (PEQBiquadStates m channel)
                (band := setc (PEQBiquadStates m channel band) coeffs))\<rparr>)"

text \<open>\<^verbatim>\<open>PEQ_ConfigureBand\<close> clamps the caller's structure in place; the third component of
  the result is that structure after the call.\<close>

definition PEQ_ConfigureBand ::
  "('s \<Rightarrow> BiquadCoeffs_TypeDef \<Rightarrow> 's) \<Rightarrow> BiquadCoeffs_TypeDef \<Rightarrow> 's PEQModule \<Rightarrow> nat \<Rightarrow> nat
     \<Rightarrow> PEQBand_TypeDef option \<Rightarrow> HAL_StatusTypeDef \<times> 's PEQModule \<times> PEQBand_TypeDef option" where
  "PEQ_ConfigureBand setc uninit m channel band config =
     (case config of
        None \<Rightarrow> (HAL_ERROR, m, None)
      | Some c \<Rightarrow>
          if channel \<ge> AUDIO_OUTPUT_CHANNELS \<or> band \<ge> PEQ_MAX_BANDS_PER_CHANNEL
          then (HAL_ERROR, m, Some c)
          else
            let c1 = (if pb_frequency c < 20 then c\<lparr>pb_frequency := 20\<rparr>
                      else if pb_frequency c > 20000 then c\<lparr>pb_frequency := 20000\<rparr> else c);
                c2 = (if pb_q c1 < 1 / 10 then c1\<lparr>pb_q := 1 / 10\<rparr>
                      else if pb_q c1 > 10 then c1\<lparr>pb_q := 10\<rparr> else c1);
                c3 = (if pb_gain c2 < - 12 then c2\<lparr>pb_gain := - 12\<rparr>
                      else if pb_gain c2 > 12 then c2\<lparr>pb_gain := 12\<rparr> else c2);
                bnd = (PEQBands m channel band)
                        \<lparr>pb_type := pb_type c3, pb_frequency := pb_frequency c3,
                         pb_gain := pb_gain c3, pb_q := pb_q c3, pb_enabled := pb_enabled c3\<rparr>;
                m1 = m\<lparr>PEQBands := (PEQBands m)(channel := (PEQBands m channel)(band := bnd))\<rparr>
            in (HAL_OK, PEQ_UpdateFilterCoefficients setc uninit m1 channel band, Some c3))"

definition PEQ_GetBandConfig ::
  "'s PEQModule \<Rightarrow> nat \<Rightarrow> nat \<Rightarrow> PEQBand_TypeDef option \<Rightarrow> HAL_StatusTypeDef \<times> PEQBand_TypeDef option" where
  "PEQ_GetBandConfig m channel band config =
     (case config of
        None \<Rightarrow> (HAL_ERROR, None)
      | Some c \<Rightarrow>
          if channel \<ge> AUDIO_OUTPUT_CHANNELS \<or> band \<ge> PEQ_MAX_BANDS_PER_CHANNEL
          then (HAL_ERROR, Some c)
          else (HAL_OK, Some (c\<lparr>pb_type := pb_type (PEQBands m channel band),
                                  pb_frequency := pb_frequency (PEQBands m channel band),
                                  pb_gain := pb_gain (PEQBands m channel band),
                                  pb_q := pb_q (PEQBands m channel band),
                                  pb_enabled := pb_enabled (PEQBands m channel band)\<rparr>)))"




text \<open>
  Modelled from the spec: \<^verbatim>\<open>Biquad_SetCoefficients\<close> is called by peq\_filter.c and is not
  defined in the given sources. The specification says of the biquad state that it
  \<open>must be cleared (all zero) whenever coefficients change\<close> and of the equaliser that
  reconfiguring a band \<open>resets only that band's state\<close>; the helper is modelled on the
  state structure of biquad.c as storing the five normalised coefficients and clearing the
  four history values.
\<close>

definition Biquad_SetCoefficients :: "BiquadState_t \<Rightarrow> BiquadCoeffs_TypeDef \<Rightarrow> BiquadState_t" where
  "Biquad_SetCoefficients state coeffs =
     Biquad_Reset (state\<lparr>bq_b0 := bc_b0 coeffs, bq_b1 := bc_b1 coeffs, bq_b2 := bc_b2 coeffs,
                         bq_a1 := bc_a1 coeffs, bq_a2 := bc_a2 coeffs\<rparr>)"


section \<open>Filter designer (Filter/Src/filter\_design.c)\<close>

text \<open>
  \<^verbatim>\<open>FilterCoefficients_t\<close>, the status codes and the enumerations are declared outside the
  given sources under the names filter\_design.c uses. \<open>FILTER_TYPE_NONE\<close> stands for every
  type value without a \<^verbatim>\<open>case\<close> of its own, \<open>FILTER_RESPONSE_MAX\<close> for every response
  value without one. \<^verbatim>\<open>Bessel_CreateFilter\<close> is not defined in the given sources and is the
  parameter \<open>bessel\<close>. The filter bank is a store from section index to coefficient set.
\<close>

datatype FilterType_t =
  FILTER_TYPE_NONE | FILTER_TYPE_LOWPASS | FILTER_TYPE_HIGHPASS | FILTER_TYPE_BANDPASS
  | FILTER_TYPE_BANDSTOP | FILTER_TYPE_LOW_SHELF | FILTER_TYPE_HIGH_SHELF
  | FILTER_TYPE_PEAKING_EQ | FILTER_TYPE_ALL_PASS

datatype FilterResponse_t =
  FILTER_RESPONSE_BUTTERWORTH | FILTER_RESPONSE_LINKWITZ_RILEY | FILTER_RESPONSE_BESSEL
  | FILTER_RESPONSE_MAX

datatype FilterDesignStatus =
  FILTER_DESIGN_SUCCESS | FILTER_DESIGN_ERROR_PARAMS | FILTER_DESIGN_ERROR_TYPE
  | FILTER_DESIGN_ERROR_ORDER | FILTER_DESIGN_ERROR_RESPONSE

record FilterCoefficients_t =
  fc_b0 :: real
  fc_b1 :: real
  fc_b2 :: real
  fc_a0 :: real
  fc_a1 :: real
  fc_a2 :: real
  fc_w0 :: real
  fc_Q :: real

definition BilinearTransform :: "FilterCoefficients_t \<Rightarrow> real \<Rightarrow> FilterCoefficients_t" where
  "BilinearTransform coeffs sampleFreq =
     (let a0_inv = 1 / fc_a0 coeffs
      in coeffs\<lparr>fc_b0 := fc_b0 coeffs * a0_inv, fc_b1 := fc_b1 coeffs * a0_inv,
                fc_b2 := fc_b2 coeffs * a0_inv, fc_a0 := 1,
                fc_a1 := fc_a1 coeffs * a0_inv, fc_a2 := fc_a2 coeffs * a0_inv\<rparr>)"

definition NormalizeCoefficients :: "FilterCoefficients_t \<Rightarrow> FilterCoefficients_t" where
  "NormalizeCoefficients coeffs =
     (if \<bar>fc_a0 coeffs - 1\<bar> < 1 / 1000000 then coeffs
      else
        let a0 = fc_a0 coeffs
        in coeffs\<lparr>fc_b0 := fc_b0 coeffs / a0, fc_b1 := fc_b1 coeffs / a0,
                  fc_b2 := fc_b2 coeffs / a0, fc_a1 := fc_a1 coeffs / a0,
                  fc_a2 := fc_a2 coeffs / a0, fc_a0 := 1\<rparr>)"

definition DesignSecondOrderLowPass :: "FilterCoefficients_t \<Rightarrow> real \<Rightarrow> real \<Rightarrow> FilterCoefficients_t" where
  "DesignSecondOrderLowPass coeffs freq Q =
     (let w0 = 2 * pi * freq;
          alpha = w0 / (2 * Q)
      in coeffs\<lparr>fc_w0 := freq, fc_Q := Q,
                fc_b0 := w0 * w0, fc_b1 := 0, fc_b2 := 0,
                fc_a0 := w0 * w0, fc_a1 := alpha, fc_a2 := 1\<rparr>)"

definition DesignSecondOrderHighPass :: "FilterCoefficients_t \<Rightarrow> real \<Rightarrow> real \<Rightarrow> FilterCoefficients_t" where
  "DesignSecondOrderHighPass coeffs freq Q =
     (let w0 = 2 * pi * freq;
          alpha = w0 / (2 * Q)
      in coeffs\<lparr>fc_w0 := freq, fc_Q := Q,
                fc_b0 := 1, fc_b1 := 0, fc_b2 := 0,
                fc_a0 := w0 * w0, fc_a1 := alpha, fc_a2 := 1\<rparr>)"

definition DesignSecondOrderBandPass :: "FilterCoefficients_t \<Rightarrow> real \<Rightarrow> real \<Rightarrow> FilterCoefficients_t" where
  "DesignSecondOrderBandPass coeffs freq bandwidth =
     (let w0 = 2 * pi * freq;
          alpha = sin w0 * sinh (ln 2 / 2 * bandwidth * w0 / sin w0);
          a0 = 1 + alpha
      in coeffs\<lparr>fc_w0 := freq, fc_Q := 1 / bandwidth,
                fc_b0 := alpha, fc_b1 := 0, fc_b2 := - alpha,
                fc_a0 := a0, fc_a1 := - 2 * cos w0, fc_a2 := 1 - alpha\<rparr>)"

definition DesignSecondOrderBandStop :: "FilterCoefficients_t \<Rightarrow> real \<Rightarrow> real \<Rightarrow> FilterCoefficients_t" where
  "DesignSecondOrderBandStop coeffs freq bandwidth =
     (let w0 = 2 * pi * freq;
          alpha = sin w0 * sinh (ln 2 / 2 * bandwidth * w0 / sin w0);
          a0 = 1 + alpha
      in coeffs\<lparr>fc_w0 := freq, fc_Q := 1 / bandwidth,
                fc_b0 := 1, fc_b1 := - 2 * cos w0, fc_b2 := 1,
                fc_a0 := a0, fc_a1 := - 2 * cos w0, fc_a2 := 1 - alpha\<rparr>)"

text \<open>\<^verbatim>\<open>ComputeShelfParameters\<close> returns \<open>(A, beta, omega)\<close>.\<close>

definition ComputeShelfParameters :: "real \<Rightarrow> real \<Rightarrow> real \<Rightarrow> real \<times> real \<times> real" where
  "ComputeShelfParameters gainDb freq Q =
     (let A = 10 powr (gainDb / 40);
          omega = 2 * pi * freq;
          beta = sqrt ((A * A + 1) / Q - (A - 1) * (A - 1))
      in (A, beta, omega))"

definition DesignLowShelf :: "FilterCoefficients_t \<Rightarrow> real \<Rightarrow> real \<Rightarrow> real \<Rightarrow> FilterCoefficients_t" where
  "DesignLowShelf coeffs freq Q gainDb =
     (let (A, beta, omega) = ComputeShelfParameters gainDb freq Q;
          cosw = cos omega;
          sinw = sin omega;
          a0 = (A + 1) + (A - 1) * cosw + beta * sinw;
          a1 = - 2 * ((A - 1) + (A + 1) * cosw);
          a2 = (A + 1) + (A - 1) * cosw - beta * sinw;
          b0 = A * ((A + 1) - (A - 1) * cosw + beta * sinw);
          b1 = 2 * A * ((A - 1) - (A + 1) * cosw);
          b2 = A * ((A + 1) - (A - 1) * cosw - beta * sinw)
      in coeffs\<lparr>fc_w0 := freq, fc_Q := Q,
                fc_b0 := b0, fc_b1 := b1, fc_b2 := b2, fc_a0 := a0, fc_a1 := a1, fc_a2 := a2\<rparr>)"

definition DesignHighShelf :: "FilterCoefficients_t \<Rightarrow> real \<Rightarrow> real \<Rightarrow> real \<Rightarrow> FilterCoefficients_t" where
  "DesignHighShelf coeffs freq Q gainDb =
     (let (A, beta, omega) = ComputeShelfParameters gainDb freq Q;
          cosw = cos omega;
          sinw = sin omega;
          a0 = (A + 1) - (A - 1) * cosw + beta * sinw;
          a1 = 2 * ((A - 1) - (A + 1) * cosw);
          a2 = (A + 1) - (A - 1) * cosw - beta * sinw;
          b0 = A * ((A + 1) + (A - 1) * cosw + beta * sinw);
          b1 = - 2 * A * ((A - 1) + (A + 1) * cosw);
          b2 = A * ((A + 1) + (A - 1) * cosw - beta * sinw)
      in coeffs\<lparr>fc_w0 := freq, fc_Q := Q,
                fc_b0 := b0, fc_b1 := b1, fc_b2 := b2, fc_a0 := a0, fc_a1 := a1, fc_a2 := a2\<rparr>)"

definition DesignPeakingEQ :: "FilterCoefficients_t \<Rightarrow> real \<Rightarrow> real \<Rightarrow> real \<Rightarrow> FilterCoefficients_t" where
  "DesignPeakingEQ coeffs freq Q gainDb =
     (let A = 10 powr (gainDb / 40);
          w0 = 2 * pi * freq;
          alpha = sin w0 / (2 * Q);
          a0 = 1 + alpha / A
      in coeffs\<lparr>fc_w0 := freq, fc_Q := Q,
                fc_b0 := 1 + alpha * A, fc_b1 := - 2 * cos w0, fc_b2 := 1 - alpha * A,
                fc_a0 := a0, fc_a1 := - 2 * cos w0, fc_a2 := 1 - alpha / A\<rparr>)"

text \<open>The value of \<^verbatim>\<open>freq\<close> after line 78 of \<^verbatim>\<open>FilterDesign_Create\<close>: the frequency every
  designer of the \<^verbatim>\<open>switch\<close> receives.\<close>

definition FilterDesign_Create_freq :: "real \<Rightarrow> real \<Rightarrow> real" where
  "FilterDesign_Create_freq freq sampleFreq =
     (if freq \<ge> sampleFreq / 2 then sampleFreq / 2 - 1 else freq)"

definition FilterDesign_Create ::
  "FilterCoefficients_t option \<Rightarrow> FilterType_t \<Rightarrow> real \<Rightarrow> real \<Rightarrow> real \<Rightarrow> real
     \<Rightarrow> FilterDesignStatus \<times> FilterCoefficients_t option" where
  "FilterDesign_Create coeffs filterType freq0 Q gainDb sampleFreq =
     (case coeffs of
        None \<Rightarrow> (FILTER_DESIGN_ERROR_PARAMS, None)
      | Some old \<Rightarrow>
          if freq0 \<le> 0 \<or> sampleFreq \<le> 0 then (FILTER_DESIGN_ERROR_PARAMS, Some old)
          else
            let freq = FilterDesign_Create_freq freq0 sampleFreq;
                c0 = \<lparr>fc_b0 = 0, fc_b1 = 0, fc_b2 = 0, fc_a0 = 1, fc_a1 = 0, fc_a2 = 0,
                      fc_w0 = 0, fc_Q = 0\<rparr>;
                finish = (\<lambda>c. (FILTER_DESIGN_SUCCESS,
                               Some (NormalizeCoefficients (BilinearTransform c sampleFreq))))
            in case filterType of
                 FILTER_TYPE_LOWPASS \<Rightarrow> finish (DesignSecondOrderLowPass c0 freq Q)
               | FILTER_TYPE_HIGHPASS \<Rightarrow> finish (DesignSecondOrderHighPass c0 freq Q)
               | FILTER_TYPE_BANDPASS \<Rightarrow> finish (DesignSecondOrderBandPass c0 freq (1 / Q))
               | FILTER_TYPE_BANDSTOP \<Rightarrow> finish (DesignSecondOrderBandStop c0 freq (1 / Q))
               | FILTER_TYPE_LOW_SHELF \<Rightarrow> finish (DesignLowShelf c0 freq Q gainDb)
               | FILTER_TYPE_HIGH_SHELF \<Rightarrow> finish (DesignHighShelf c0 freq Q gainDb)
               | FILTER_TYPE_PEAKING_EQ \<Rightarrow> finish (DesignPeakingEQ c0 freq Q gainDb)
               | FILTER_TYPE_ALL_PASS \<Rightarrow>
                   finish (c0\<lparr>fc_b0 := 1, fc_b1 := - 2 * cos (2 * pi * freq / sampleFreq),
                              fc_b2 := 1, fc_a0 := 1,
                              fc_a1 := - 2 * cos (2 * pi * freq / sampleFreq), fc_a2 := 1\<rparr>)
               | FILTER_TYPE_NONE \<Rightarrow> (FILTER_DESIGN_ERROR_TYPE, Some c0))"

definition ComputeQForButterworthOrder :: "nat \<Rightarrow> nat \<Rightarrow> real" where
  "ComputeQForButterworthOrder order section =
     (if order mod 2 = 1 \<and> section = 0 then 1 / 2
      else
        let actualSection = (if order mod 2 = 1 then section - 1 else section)
        in if order = 2 then 7071 / 10000
           else if order = 3 then 1
           else if order = 4 then
             (if actualSection = 0 then 54 / 100 else if actualSection = 1 then 131 / 100 else 0)
           else if order = 5 then
             (if actualSection = 0 then 62 / 100 else if actualSection = 1 then 162 / 100 else 0)
           else if order = 6 then
             (if actualSection = 0 then 52 / 100 else if actualSection = 1 then 71 / 100
              else if actualSection = 2 then 193 / 100 else 0)
           else if order = 7 then
             (if actualSection = 0 then 55 / 100 else if actualSection = 1 then 80 / 100
              else if actualSection = 2 then 225 / 100 else 0)
           else if order = 8 then
             (if actualSection = 0 then 51 / 100 else if actualSection = 1 then 60 / 100
              else if actualSection = 2 then 90 / 100
              else if actualSection = 3 then 256 / 100 else 0)
           else 7071 / 10000)"

text \<open>One of the three section loops of \<^verbatim>\<open>FilterDesign_CreateCascade\<close>: \<open>n\<close> sections
  from index \<open>i\<close> on, written at \<open>offset + i\<close>, for a Butterworth filter of order
  \<open>bwOrder\<close>; the loop returns at the first section whose design fails.\<close>

fun FilterDesign_sections ::
  "nat \<Rightarrow> nat \<Rightarrow> nat \<Rightarrow> nat \<Rightarrow> FilterType_t \<Rightarrow> real \<Rightarrow> real \<Rightarrow> (nat \<Rightarrow> FilterCoefficients_t)
     \<Rightarrow> FilterDesignStatus \<times> (nat \<Rightarrow> FilterCoefficients_t)" where
  "FilterDesign_sections 0 i offset bwOrder filterType freq sampleFreq filterBank =
     (FILTER_DESIGN_SUCCESS, filterBank)"
| "FilterDesign_sections (Suc n) i offset bwOrder filterType freq sampleFreq filterBank =
     (let Q = ComputeQForButterworthOrder bwOrder i;
          (status, c) = FilterDesign_Create (Some (filterBank (offset + i))) filterType freq Q 0 sampleFreq;
          bank1 = (case c of None \<Rightarrow> filterBank | Some c1 \<Rightarrow> filterBank(offset + i := c1))
      in if status \<noteq> FILTER_DESIGN_SUCCESS then (status, bank1)
         else FilterDesign_sections n (Suc i) offset bwOrder filterType freq sampleFreq bank1)"

definition FilterDesign_CreateCascade ::
  "((nat \<Rightarrow> FilterCoefficients_t) \<Rightarrow> 8 word \<Rightarrow> FilterType_t \<Rightarrow> real \<Rightarrow> 8 word \<Rightarrow> real
      \<Rightarrow> FilterDesignStatus \<times> (nat \<Rightarrow> FilterCoefficients_t))
   \<Rightarrow> (nat \<Rightarrow> FilterCoefficients_t) option \<Rightarrow> 8 word \<Rightarrow> FilterType_t \<Rightarrow> real
   \<Rightarrow> FilterResponse_t \<Rightarrow> 8 word \<Rightarrow> real
   \<Rightarrow> FilterDesignStatus \<times> (nat \<Rightarrow> FilterCoefficients_t) option" where
  "FilterDesign_CreateCascade bessel filterBank numFilters filterType freq filterResponse order0 sampleFreq =
     (case filterBank of
        None \<Rightarrow> (FILTER_DESIGN_ERROR_PARAMS, None)
      | Some bank \<Rightarrow>
          if unat numFilters < 1 \<or> freq \<le> 0 \<or> sampleFreq \<le> 0
          then (FILTER_DESIGN_ERROR_PARAMS, Some bank)
          else
            let requiredFilters = (unat order0 + 1) div 2
            in if unat numFilters < requiredFilters then (FILTER_DESIGN_ERROR_ORDER, Some bank)
               else if filterResponse = FILTER_RESPONSE_LINKWITZ_RILEY then
                 (let order = (if unat order0 mod 2 \<noteq> 0 then order0 + 1 else order0);
                      butterworthOrder = unat order div 2;
                      butterworthSections = (butterworthOrder + 1) div 2;
                      (status1, bank1) =
                        FilterDesign_sections butterworthSections 0 0 butterworthOrder
                          filterType freq sampleFreq bank
                  in if status1 \<noteq> FILTER_DESIGN_SUCCESS then (status1, Some bank1)
                     else
                       let (status2, bank2) =
                             FilterDesign_sections butterworthSections 0 butterworthSections
                               butterworthOrder filterType freq sampleFreq bank1
                       in if status2 \<noteq> FILTER_DESIGN_SUCCESS then (status2, Some bank2)
                          else (FILTER_DESIGN_SUCCESS, Some bank2))
               else case filterResponse of
                 FILTER_RESPONSE_BUTTERWORTH \<Rightarrow>
                   (let (status, bank1) =
                          FilterDesign_sections requiredFilters 0 0 (unat order0)
                            filterType freq sampleFreq bank
                    in (status, Some bank1))
               | FILTER_RESPONSE_BESSEL \<Rightarrow>
                   if unat order0 > 8 then (FILTER_DESIGN_ERROR_ORDER, Some bank)
                   else (let (status, bank1) = bessel bank numFilters filterType freq order0 sampleFreq
                         in (status, Some bank1))
               | FILTER_RESPONSE_LINKWITZ_RILEY \<Rightarrow> (FILTER_DESIGN_ERROR_RESPONSE, Some bank)
               | FILTER_RESPONSE_MAX \<Rightarrow> (FILTER_DESIGN_ERROR_RESPONSE, Some bank))"


section \<open>Routing (Audio/Src/audio\_routing.c)\<close>

text \<open>
  \<^verbatim>\<open>ProcessChannelRouting\<close> with the structures as audio\_routing.c uses them: a
  configuration with \<^verbatim>\<open>source\<close>, \<^verbatim>\<open>mixLevel\<close> and \<^verbatim>\<open>outputMute\<close> per output channel, and
  buffers with \<^verbatim>\<open>samples\<close> and \<^verbatim>\<open>bufferSize\<close>. \<open>AUDIO_SOURCE_MAX\<close> stands for the
  source values of the \<^verbatim>\<open>default\<close> branch.
\<close>

datatype AudioSource_TypeDef =
  AUDIO_SOURCE_NONE | AUDIO_SOURCE_IN1 | AUDIO_SOURCE_IN2 | AUDIO_SOURCE_IN1_IN2_MIX
  | AUDIO_SOURCE_IN1_ONLY_LEFT | AUDIO_SOURCE_IN1_ONLY_RIGHT
  | AUDIO_SOURCE_IN2_ONLY_LEFT | AUDIO_SOURCE_IN2_ONLY_RIGHT | AUDIO_SOURCE_MAX

record AudioRouting_TypeDef =
  ar_source :: "nat \<Rightarrow> AudioSource_TypeDef"
  ar_mixLevel :: "nat \<Rightarrow> real"
  ar_outputMute :: "nat \<Rightarrow> nat"

record RoutingBuffer =
  rb_samples :: "nat \<Rightarrow> nat \<Rightarrow> real"
  rb_bufferSize :: nat

text \<open>Every loop of the function writes \<open>outputBuffer->samples[outputChannel][i]\<close> for
  \<open>i\<close> below \<open>outputBuffer->bufferSize\<close> from a value that depends on \<open>i\<close> only.\<close>

definition routing_fill :: "RoutingBuffer \<Rightarrow> nat \<Rightarrow> (nat \<Rightarrow> real) \<Rightarrow> RoutingBuffer" where
  "routing_fill outputBuffer outputChannel v =
     fold (\<lambda>i ob. ob\<lparr>rb_samples := (rb_samples ob)
                        (outputChannel := (rb_samples ob outputChannel)(i := v i))\<rparr>)
          [0..<rb_bufferSize outputBuffer] outputBuffer"

definition ProcessChannelRouting ::
  "AudioRouting_TypeDef \<Rightarrow> nat \<Rightarrow> RoutingBuffer \<Rightarrow> RoutingBuffer \<Rightarrow> RoutingBuffer" where
  "ProcessChannelRouting audioRoutingConfig outputChannel inputBuffer outputBuffer =
     (if ar_outputMute audioRoutingConfig outputChannel \<noteq> 0
      then routing_fill outputBuffer outputChannel (\<lambda>i. 0)
      else case ar_source audioRoutingConfig outputChannel of
        AUDIO_SOURCE_NONE \<Rightarrow> routing_fill outputBuffer outputChannel (\<lambda>i. 0)
      | AUDIO_SOURCE_IN1 \<Rightarrow> routing_fill outputBuffer outputChannel (rb_samples inputBuffer 0)
      | AUDIO_SOURCE_IN2 \<Rightarrow> routing_fill outputBuffer outputChannel (rb_samples inputBuffer 1)
      | AUDIO_SOURCE_IN1_IN2_MIX \<Rightarrow>
          (let mixLevel = ar_mixLevel audioRoutingConfig outputChannel;
               in1Weight = mixLevel;
               in2Weight = 1 - mixLevel
           in routing_fill outputBuffer outputChannel
                (\<lambda>i. (rb_samples inputBuffer 0 i * in1Weight) + (rb_samples inputBuffer 1 i * in2Weight)))
      | AUDIO_SOURCE_IN1_ONLY_LEFT \<Rightarrow> routing_fill outputBuffer outputChannel (rb_samples inputBuffer 0)
      | AUDIO_SOURCE_IN1_ONLY_RIGHT \<Rightarrow> routing_fill outputBuffer outputChannel (rb_samples inputBuffer 0)
      | AUDIO_SOURCE_IN2_ONLY_LEFT \<Rightarrow> routing_fill outputBuffer outputChannel (rb_samples inputBuffer 1)
      | AUDIO_SOURCE_IN2_ONLY_RIGHT \<Rightarrow> routing_fill outputBuffer outputChannel (rb_samples inputBuffer 1)
      | AUDIO_SOURCE_MAX \<Rightarrow> routing_fill outputBuffer outputChannel (\<lambda>i. 0))"


section \<open>Observations and example states\<close>


definition Delay_Process_out ::
  "DelayModule \<Rightarrow> nat \<Rightarrow> (nat \<Rightarrow> real) \<Rightarrow> nat \<Rightarrow> (HAL_StatusTypeDef \<times> real list option) option" where
  "Delay_Process_out m channel buf n =
     (case Delay_Process m channel (Some buf) n of
        None \<Rightarrow> None
      | Some (status, m1, b) \<Rightarrow> Some (status, map_option (\<lambda>f. map f [0..<n]) b))"

text \<open>The unit impulse, and the response of the one-pole smoother with coefficient \<open>c\<close>
  to an impulse that arrives at index \<open>N\<close>.\<close>

definition impulse :: "nat \<Rightarrow> real" where
  "impulse i = (if i = 0 then 1 else 0)"

definition smoothed_impulse :: "real \<Rightarrow> nat \<Rightarrow> nat \<Rightarrow> real" where
  "smoothed_impulse c N t = (if t < N then 0 else (1 - c) * c ^ (t - N))"

text \<open>The state of a delay instance with buffer size \<open>B\<close> and a delay of \<open>N\<close> samples after
  \<open>t\<close> samples of the impulse, counted from a flushed buffer.\<close>

definition delay_state_at ::
  "DelayInstance_TypeDef \<Rightarrow> (nat \<Rightarrow> real) \<Rightarrow> nat \<Rightarrow> nat \<Rightarrow> nat \<Rightarrow> DelayInstance_TypeDef" where
  "delay_state_at inst b B N t =
     inst\<lparr>di_bufferSize := B, di_delaySamples := real N,
          di_buffer := Some (\<lambda>i. if i < B then (if i = 0 \<and> 1 \<le> t \<and> t \<le> B then 1 else 0) else b i),
          di_prevSample := (if t = 0 then 0 else smoothed_impulse (di_filterCoeff inst) N (t - 1)),
          di_writeIndex := t mod B\<rparr>"

text \<open>Two constant sample buffers.\<close>

definition ex_zero_buffer :: "nat \<Rightarrow> real" where
  "ex_zero_buffer i = 0"




text \<open>A limiter channel as \<^verbatim>\<open>Limiter_Init\<close> leaves it, with a threshold of 0.25, no knee,
  no lookahead and no inter-sample protection.\<close>

definition ex_limiter_config :: Limiter_TypeDef where
  "ex_limiter_config =
     \<lparr>lc_threshold = 1 / 4, lc_knee = 0, lc_attackTime = 1, lc_releaseTime = 50,
      lc_lookaheadTime = 0, lc_enableLookahead = False, lc_enableISP = False,
      lc_adaptiveRelease = False\<rparr>"

definition ex_limiter_state :: LimiterState_Internal where
  "ex_limiter_state =
     \<lparr>ls_currentGain = 1, ls_peakLevel = 0, ls_releaseTime = 2400, ls_attackTime = 48,
      ls_holdCounter = 0, ls_targetGain = 1, ls_envelope = 0, ls_lookaheadBuffer = (\<lambda>i. 0),
      ls_lookaheadIndex = 0, ls_prevSample = 0\<rparr>"

definition ex_limiter :: LimiterModule where
  "ex_limiter =
     \<lparr>limiterState = (\<lambda>ch. ex_limiter_state), limiterInitialized = True,
      limiterConfig = (\<lambda>ch. ex_limiter_config)\<rparr>"



definition ex_audio_status :: AudioDriverStatus_TypeDef where
  "ex_audio_status =
     \<lparr>ad_outputGain = (\<lambda>ch. 2), ad_outputMute = (\<lambda>ch. if ch = 3 then 1 else 0)\<rparr>"

text \<open>A delay module before initialisation, and channel 0 of it initialised for 48 kHz and
  20 ms, configured to 1/16 ms (three samples), enabled and flushed.\<close>

definition ex_delay_instance0 :: DelayInstance_TypeDef where
  "ex_delay_instance0 =
     \<lparr>di_isActive = False, di_bufferSize = 0, di_writeIndex = 0, di_sampleRate = 0,
      di_maxDelayMs = 0, di_currentDelayMs = 0, di_currentDelayDistance = 0,
      di_delayUnit = DELAY_UNIT_MS, di_phaseInvert = False, di_enabled = False,
      di_filterCoeff = 0, di_prevSample = 0, di_buffer = None, di_delaySamples = 0\<rparr>"

definition ex_delay0 :: DelayModule where
  "ex_delay0 =
     \<lparr>delayInstances = (\<lambda>ch. ex_delay_instance0), isDelaySystemInitialized = False,
      tempCompensationFactor = 1, interpolationMode = DELAY_INTERPOLATION_LINEAR\<rparr>"

definition ex_delay_init :: DelayModule where
  "ex_delay_init =
     snd (Delay_Init (\<lambda>ch. Some (\<lambda>i. 0)) ex_delay0
            (Some \<lparr>dc_sampleRate = 48000, dc_maxDelayMs = 20\<rparr>))"

definition ex_delay_configured :: DelayModule where
  "ex_delay_configured =
     snd (Delay_ConfigChannel ex_delay_init 0
            (Some \<lparr>dcc_delayValue = 1 / 16, dcc_delayUnit = DELAY_UNIT_MS,
                   dcc_phaseInvert = False, dcc_enabled = True\<rparr>))"

definition ex_delay :: DelayModule where
  "ex_delay = snd (Delay_FlushBuffer ex_delay_configured 0)"

text \<open>A crossover and an equaliser whose stages are the biquads of biquad.c; the designers
  that the given sources lack return the coefficient set they are given, and
  \<^verbatim>\<open>Biquad_Init\<close> is the spec-modelled \<open>Biquad_SetCoefficients\<close>.\<close>

definition ex_biquad :: BiquadState_t where
  "ex_biquad =
     \<lparr>bq_b0 = 1, bq_b1 = 0, bq_b2 = 0, bq_a1 = 0, bq_a2 = 0,
      bq_x1 = 0, bq_x2 = 0, bq_y1 = 1 / 2, bq_y2 = 1 / 4\<rparr>"

definition ex_coeffs :: BiquadCoeffs_TypeDef where
  "ex_coeffs = \<lparr>bc_b0 = 1, bc_b1 = 0, bc_b2 = 0, bc_a0 = 1, bc_a1 = 0, bc_a2 = 0\<rparr>"

definition ex_externals :: "(BiquadState_t, BiquadCoeffs_TypeDef) CrossoverExternals" where
  "ex_externals =
     \<lparr>ext_Audio_GetSampleRate = 48000,
      ext_Butterworth_LowPass = (\<lambda>c stage n f fs. c),
      ext_Butterworth_HighPass = (\<lambda>c stage n f fs. c),
      ext_LinkwitzRiley_LowPass = (\<lambda>c stage n f fs. c),
      ext_LinkwitzRiley_HighPass = (\<lambda>c stage n f fs. c),
      ext_Bessel_LowPass = (\<lambda>c stage n f fs. c),
      ext_Bessel_HighPass = (\<lambda>c stage n f fs. c),
      ext_Biquad_Init = Biquad_SetCoefficients,
      ext_Biquad_Reset = Biquad_Reset,
      ext_Biquad_Process = Biquad_ProcessSample,
      ext_coeffs_uninit = ex_coeffs\<rparr>"

definition ex_chain :: "BiquadState_t FilterChain_TypeDef" where
  "ex_chain = \<lparr>fch_stages = (\<lambda>i. ex_biquad), fch_numStages = 0, fch_gain = 1\<rparr>"

definition ex_crossover :: "BiquadState_t CrossoverModule" where
  "ex_crossover =
     \<lparr>crossoverConfig =
        (\<lambda>ch. \<lparr>xc_type = CROSSOVER_TYPE_LINKWITZ_RILEY, xc_filterMode = CROSSOVER_MODE_FULLRANGE,
               xc_lowFrequency = 80, xc_highFrequency = 2500, xc_order = 4\<rparr>),
      highpassFilters = (\<lambda>ch. ex_chain), lowpassFilters = (\<lambda>ch. ex_chain),
      bandpassHighFilters = (\<lambda>ch. ex_chain), bandpassLowFilters = (\<lambda>ch. ex_chain)\<rparr>"

definition ex_peq_band :: PEQBand_TypeDef where
  "ex_peq_band =
     \<lparr>pb_type = PEQ_TYPE_BELL, pb_frequency = 1000, pb_gain = 0, pb_q = 1414 / 1000,
      pb_enabled = 0\<rparr>"

definition ex_peq :: "BiquadState_t PEQModule" where
  "ex_peq = \<lparr>PEQBands = (\<lambda>ch band. ex_peq_band), PEQBiquadStates = (\<lambda>ch band. ex_biquad)\<rparr>"



definition ex_filter_coeffs :: FilterCoefficients_t where
  "ex_filter_coeffs =
     \<lparr>fc_b0 = 0, fc_b1 = 0, fc_b2 = 0, fc_a0 = 0, fc_a1 = 0, fc_a2 = 0, fc_w0 = 0, fc_Q = 0\<rparr>"

definition ex_bessel ::
  "(nat \<Rightarrow> FilterCoefficients_t) \<Rightarrow> 8 word \<Rightarrow> FilterType_t \<Rightarrow> real \<Rightarrow> 8 word \<Rightarrow> real
     \<Rightarrow> FilterDesignStatus \<times> (nat \<Rightarrow> FilterCoefficients_t)" where
  "ex_bessel bank numFilters filterType freq order sampleFreq = (FILTER_DESIGN_SUCCESS, bank)"

text \<open>A filter bank whose entries are all zero, and the name \<open>Butterworth_section\<close> for
  what \<^verbatim>\<open>FilterDesign_Create\<close> designs as section \<open>i\<close> of a Butterworth cascade of order
  \<open>bwOrder\<close>.\<close>

definition ex_bank :: "nat \<Rightarrow> FilterCoefficients_t" where
  "ex_bank i = ex_filter_coeffs"

definition Butterworth_section ::
  "nat \<Rightarrow> FilterType_t \<Rightarrow> real \<Rightarrow> real \<Rightarrow> nat \<Rightarrow> FilterCoefficients_t" where
  "Butterworth_section bwOrder filterType freq sampleFreq i =
     (case snd (FilterDesign_Create (Some ex_filter_coeffs) filterType freq
                  (ComputeQForButterworthOrder bwOrder i) 0 sampleFreq) of
        Some c \<Rightarrow> c
      | None \<Rightarrow> ex_filter_coeffs)"

definition ex_routing :: AudioRouting_TypeDef where
  "ex_routing =
     \<lparr>ar_source = (\<lambda>ch. AUDIO_SOURCE_IN1), ar_mixLevel = (\<lambda>ch. 1 / 2),
      ar_outputMute = (\<lambda>ch. if ch = 3 then 1 else 0)\<rparr>"


section \<open>Properties of the biquad section\<close>

text \<open>
  C2. For every input sample and every biquad state, one call of the per-sample process
  computes the Direct-Form-II recurrence \<open>w = input - a1*y1 - a2*y2\<close>,
  \<open>output = b0*w + b1*y1 + b2*y2\<close>, then sets \<open>y2 = y1\<close> and \<open>y1 = w\<close>; the five
  coefficients and the fields \<open>x1\<close>, \<open>x2\<close> keep their values.
\<close>

theorem Biquad_ProcessSample_direct_form_II:
  fixes state :: BiquadState_t and input :: real
  defines "w \<equiv> input - bq_a1 state * bq_y1 state - bq_a2 state * bq_y2 state"
  shows "fst (Biquad_ProcessSample state input) =
           bq_b0 state * w + bq_b1 state * bq_y1 state + bq_b2 state * bq_y2 state
       \<and> bq_y2 (snd (Biquad_ProcessSample state input)) = bq_y1 state
       \<and> bq_y1 (snd (Biquad_ProcessSample state input)) = w
       \<and> bq_b0 (snd (Biquad_ProcessSample state input)) = bq_b0 state
       \<and> bq_b1 (snd (Biquad_ProcessSample state input)) = bq_b1 state
       \<and> bq_b2 (snd (Biquad_ProcessSample state input)) = bq_b2 state
       \<and> bq_a1 (snd (Biquad_ProcessSample state input)) = bq_a1 state
       \<and> bq_a2 (snd (Biquad_ProcessSample state input)) = bq_a2 state
       \<and> bq_x1 (snd (Biquad_ProcessSample state input)) = bq_x1 state
       \<and> bq_x2 (snd (Biquad_ProcessSample state input)) = bq_x2 state"
  by (simp add: Biquad_ProcessSample_def Biquad_DirectFormII_def Let_def w_def)


section \<open>Range of the output samples\<close>

lemma Limiter_ProcessSample_range:
  "- 1 \<le> fst (Limiter_ProcessSample maxLA config st x) \<and>
   fst (Limiter_ProcessSample maxLA config st x) \<le> 1"
  by (simp add: Limiter_ProcessSample_def Let_def split: prod.splits)

lemma CLAMP_range: "lo \<le> hi \<Longrightarrow> lo \<le> CLAMP x lo hi \<and> CLAMP x lo hi \<le> hi"
  by (simp add: CLAMP_def MIN_f_def MAX_f_def)

lemma Audio_OutputSample_range:
  "- 1 \<le> Audio_OutputSample audioStatus channels ch i \<and>
   Audio_OutputSample audioStatus channels ch i \<le> 1"
  using CLAMP_range[of "- 1" 1] by (simp add: Audio_OutputSample_def Let_def)

lemma Limiter_block_fold:
  "fold (Limiter_ProcessBlock_step maxLA channel) [0..<n] (m, buf) = (m1, buf1) \<Longrightarrow>
   (\<forall>i<n. - 1 \<le> buf1 i \<and> buf1 i \<le> 1) \<and> (\<forall>i\<ge>n. buf1 i = buf i)"
proof (induction n arbitrary: m1 buf1)
  case 0
  then show ?case by simp
next
  case (Suc n)
  obtain m' buf' where f:
    "fold (Limiter_ProcessBlock_step maxLA channel) [0..<n] (m, buf) = (m', buf')"
    by (cases "fold (Limiter_ProcessBlock_step maxLA channel) [0..<n] (m, buf)") auto
  from Suc.IH[OF f] have ih: "\<forall>i<n. - 1 \<le> buf' i \<and> buf' i \<le> 1" "\<forall>i\<ge>n. buf' i = buf i"
    by auto
  from Suc.prems f have "Limiter_ProcessBlock_step maxLA channel n (m', buf') = (m1, buf1)"
    by simp
  then have b1: "buf1 = buf'(n := fst (Limiter_ProcessSample maxLA (limiterConfig m' channel)
                                        (limiterState m' channel) (buf' n)))"
    by (auto simp: Limiter_ProcessBlock_step_def Let_def split: prod.splits)
  show ?case
    using ih Limiter_ProcessSample_range[of maxLA "limiterConfig m' channel"
        "limiterState m' channel" "buf' n"]
    by (auto simp: b1 less_Suc_eq)
qed

lemma Limiter_ProcessBlock_range:
  assumes "limiterInitialized m" "channel < AUDIO_OUTPUT_CHANNELS"
  shows "\<exists>m1 buf1. Limiter_ProcessBlock maxLA m channel (Some buf) blockSize = (LIMITER_OK, m1, Some buf1)
           \<and> (\<forall>i<blockSize. - 1 \<le> buf1 i \<and> buf1 i \<le> 1)"
proof -
  obtain m1 buf1 where f:
    "fold (Limiter_ProcessBlock_step maxLA channel) [0..<blockSize] (m, buf) = (m1, buf1)"
    by (cases "fold (Limiter_ProcessBlock_step maxLA channel) [0..<blockSize] (m, buf)") auto
  have "Limiter_ProcessBlock maxLA m channel (Some buf) blockSize = (LIMITER_OK, m1, Some buf1)"
    using assms f by (simp add: Limiter_ProcessBlock_def)
  then show ?thesis using Limiter_block_fold[OF f] by blast
qed

lemma FLOAT_TO_INT24_bound: "- 1 \<le> x \<Longrightarrow> x \<le> 1 \<Longrightarrow> \<bar>FLOAT_TO_INT24 x\<bar> \<le> 8388607"
  unfolding FLOAT_TO_INT24_def c_trunc_def AUDIO_MAX_VALUE_def
  by (auto simp: abs_le_iff) linarith+

lemma Audio_ch_fold:
  "fold (Audio_PrepareOutputSamples_ch audioStatus offset channels i) [0..<n] (idx, dma) =
     (idx + n, \<lambda>k. if offset + idx \<le> k \<and> k < offset + idx + n
                    then FLOAT_TO_INT24 (Audio_OutputSample audioStatus channels (k - (offset + idx)) i)
                    else dma k)"
proof (induction n)
  case 0
  then show ?case by (auto simp: fun_eq_iff)
next
  case (Suc n)
  then show ?case
    by (auto simp: Audio_PrepareOutputSamples_ch_def fun_eq_iff)
qed

lemma Audio_frame_step:
  "Audio_PrepareOutputSamples_frame audioStatus offset channels i (idx, dma) =
     (idx + AUDIO_OUTPUT_CHANNELS,
      \<lambda>k. if offset + idx \<le> k \<and> k < offset + idx + AUDIO_OUTPUT_CHANNELS
          then FLOAT_TO_INT24 (Audio_OutputSample audioStatus channels (k - (offset + idx)) i)
          else dma k)"
  by (simp add: Audio_PrepareOutputSamples_frame_def Audio_ch_fold)

lemma Audio_frame_fold:
  "fold (Audio_PrepareOutputSamples_frame audioStatus offset channels) [0..<n] (0, dma) =
     (n * AUDIO_OUTPUT_CHANNELS,
      \<lambda>k. if offset \<le> k \<and> k < offset + n * AUDIO_OUTPUT_CHANNELS
          then FLOAT_TO_INT24 (Audio_OutputSample audioStatus channels
                 ((k - offset) mod AUDIO_OUTPUT_CHANNELS) ((k - offset) div AUDIO_OUTPUT_CHANNELS))
          else dma k)"
proof (induction n)
  case 0
  then show ?case by (auto simp: fun_eq_iff)
next
  case (Suc n)
  have m: "(k - offset) div AUDIO_OUTPUT_CHANNELS = n \<and>
           (k - offset) mod AUDIO_OUTPUT_CHANNELS = k - (offset + n * AUDIO_OUTPUT_CHANNELS)"
    if a: "offset + n * AUDIO_OUTPUT_CHANNELS \<le> k"
          "k < offset + n * AUDIO_OUTPUT_CHANNELS + AUDIO_OUTPUT_CHANNELS" for k
  proof -
    define r where "r = k - (offset + n * AUDIO_OUTPUT_CHANNELS)"
    have r: "r < AUDIO_OUTPUT_CHANNELS" "k - offset = n * AUDIO_OUTPUT_CHANNELS + r"
      using a by (auto simp: r_def)
    show ?thesis using r by (simp add: r_def[symmetric])
  qed
  show ?case
    using m by (auto simp: Suc Audio_frame_step fun_eq_iff add.commute)
qed

lemma Audio_PrepareOutputSamples_at:
  assumes "i < AUDIO_FRAME_SIZE" "ch < AUDIO_OUTPUT_CHANNELS"
  shows "Audio_PrepareOutputSamples audioStatus dma offset channels
           (offset + (i * AUDIO_OUTPUT_CHANNELS + ch))
         = FLOAT_TO_INT24 (Audio_OutputSample audioStatus channels ch i)"
proof -
  have "i * AUDIO_OUTPUT_CHANNELS + ch < (i + 1) * AUDIO_OUTPUT_CHANNELS" using assms by simp
  also have "\<dots> \<le> AUDIO_FRAME_SIZE * AUDIO_OUTPUT_CHANNELS"
    using assms by (intro mult_le_mono1) simp
  finally have "i * AUDIO_OUTPUT_CHANNELS + ch < AUDIO_FRAME_SIZE * AUDIO_OUTPUT_CHANNELS" .
  then show ?thesis using assms
    by (simp add: Audio_PrepareOutputSamples_def Audio_frame_fold)
qed

text \<open>
  C1. Every output sample lies in \<open>[-1, 1]\<close>: the sample that one call of the limiter's
  per-sample function returns, whatever the configuration, the state and the input; every
  sample of a block that \<^verbatim>\<open>Limiter_ProcessBlock\<close> has processed; and, in the output
  preparation, the float of every frame index and output channel after gain and mute, whose
  conversion is the word stored in the DMA buffer, of magnitude at most \<open>2^23 - 1\<close>.
\<close>

theorem output_samples_within_unit_range:
  "(- 1 \<le> fst (Limiter_ProcessSample maxLA config st x) \<and>
    fst (Limiter_ProcessSample maxLA config st x) \<le> 1)
   \<and> (limiterInitialized m \<and> channel < AUDIO_OUTPUT_CHANNELS \<longrightarrow>
        (\<exists>m1 buf1. Limiter_ProcessBlock maxLA m channel (Some buf) blockSize = (LIMITER_OK, m1, Some buf1)
           \<and> (\<forall>i<blockSize. - 1 \<le> buf1 i \<and> buf1 i \<le> 1)))
   \<and> (\<forall>i ch. i < AUDIO_FRAME_SIZE \<and> ch < AUDIO_OUTPUT_CHANNELS \<longrightarrow>
         - 1 \<le> Audio_OutputSample audioStatus channels ch i
       \<and> Audio_OutputSample audioStatus channels ch i \<le> 1
       \<and> Audio_PrepareOutputSamples audioStatus dma offset channels
           (offset + (i * AUDIO_OUTPUT_CHANNELS + ch))
         = FLOAT_TO_INT24 (Audio_OutputSample audioStatus channels ch i)
       \<and> \<bar>Audio_PrepareOutputSamples audioStatus dma offset channels
           (offset + (i * AUDIO_OUTPUT_CHANNELS + ch))\<bar> \<le> 8388607)"
proof (intro conjI allI impI)
  show "- 1 \<le> fst (Limiter_ProcessSample maxLA config st x)"
    and "fst (Limiter_ProcessSample maxLA config st x) \<le> 1"
    using Limiter_ProcessSample_range by blast+
next
  assume "limiterInitialized m \<and> channel < AUDIO_OUTPUT_CHANNELS"
  then show "\<exists>m1 buf1. Limiter_ProcessBlock maxLA m channel (Some buf) blockSize = (LIMITER_OK, m1, Some buf1)
           \<and> (\<forall>i<blockSize. - 1 \<le> buf1 i \<and> buf1 i \<le> 1)"
    using Limiter_ProcessBlock_range by blast
next
  fix i ch
  assume a: "i < AUDIO_FRAME_SIZE \<and> ch < AUDIO_OUTPUT_CHANNELS"
  note r = Audio_OutputSample_range[of audioStatus channels ch i]
  show "- 1 \<le> Audio_OutputSample audioStatus channels ch i"
    and "Audio_OutputSample audioStatus channels ch i \<le> 1" using r by blast+
  show e: "Audio_PrepareOutputSamples audioStatus dma offset channels
           (offset + (i * AUDIO_OUTPUT_CHANNELS + ch))
         = FLOAT_TO_INT24 (Audio_OutputSample audioStatus channels ch i)"
    using a Audio_PrepareOutputSamples_at by blast
  show "\<bar>Audio_PrepareOutputSamples audioStatus dma offset channels
           (offset + (i * AUDIO_OUTPUT_CHANNELS + ch))\<bar> \<le> 8388607"
    unfolding e using r FLOAT_TO_INT24_bound by blast
qed

theorem output_samples_within_unit_range_witness:
  "fst (Limiter_ProcessSample 64 ex_limiter_config ex_limiter_state 2) = 1
   \<and> (\<exists>m1 buf1. Limiter_ProcessBlock 64 ex_limiter 0 (Some (\<lambda>i. 2)) 2 = (LIMITER_OK, m1, Some buf1)
         \<and> - 1 \<le> buf1 1 \<and> buf1 1 \<le> 1)
   \<and> Audio_OutputSample ex_audio_status (\<lambda>ch i. 3 / 4) 2 1 = 1
   \<and> Audio_PrepareOutputSamples ex_audio_status (\<lambda>k. 0) 0 (\<lambda>ch i. 3 / 4) 6 = 8388607"
proof -
  note t = output_samples_within_unit_range[of 64 ex_limiter_config ex_limiter_state 2
      ex_limiter 0 "\<lambda>i. 2" 2 ex_audio_status "\<lambda>ch i. 3 / 4" "\<lambda>k. 0" 0]
  have h1: "limiterInitialized ex_limiter \<and> (0::nat) < AUDIO_OUTPUT_CHANNELS"
    by (simp add: ex_limiter_def AUDIO_OUTPUT_CHANNELS_def)
  have h2: "(1::nat) < AUDIO_FRAME_SIZE \<and> (2::nat) < AUDIO_OUTPUT_CHANNELS"
    by (simp add: AUDIO_FRAME_SIZE_def AUDIO_OUTPUT_CHANNELS_def)
  have v1: "fst (Limiter_ProcessSample 64 ex_limiter_config ex_limiter_state 2) = 1"
    by (simp add: Limiter_ProcessSample_def Limiter_ApplyInterSampleProtection_def
        Limiter_ProcessLookahead_def Limiter_CalculateGainReduction_def ex_limiter_config_def
        ex_limiter_state_def Let_def ENVELOPE_SMOOTHING_def split: prod.splits)
  have v2: "Audio_OutputSample ex_audio_status (\<lambda>ch i. 3 / 4) 2 1 = 1"
    by (simp add: Audio_OutputSample_def ex_audio_status_def CLAMP_def MIN_f_def MAX_f_def)
  from t h1 obtain m1 buf1 where
    b: "Limiter_ProcessBlock 64 ex_limiter 0 (Some (\<lambda>i. 2)) 2 = (LIMITER_OK, m1, Some buf1)"
       "\<forall>i<2. - 1 \<le> buf1 i \<and> buf1 i \<le> 1"
    by blast
  from t h2 have
    "Audio_PrepareOutputSamples ex_audio_status (\<lambda>k. 0) 0 (\<lambda>ch i. 3 / 4)
       (0 + (1 * AUDIO_OUTPUT_CHANNELS + 2))
     = FLOAT_TO_INT24 (Audio_OutputSample ex_audio_status (\<lambda>ch i. 3 / 4) 2 1)"
    by blast
  then have v3: "Audio_PrepareOutputSamples ex_audio_status (\<lambda>k. 0) 0 (\<lambda>ch i. 3 / 4) 6 = 8388607"
    by (simp add: v2[simplified] AUDIO_OUTPUT_CHANNELS_def FLOAT_TO_INT24_def c_trunc_def
        AUDIO_MAX_VALUE_def)
  from b have "- 1 \<le> buf1 1 \<and> buf1 1 \<le> 1" by simp
  with b(1) v1 v2 v3 show ?thesis by blast
qed


section \<open>Mute\<close>

lemma routing_fill_samples:
  "rb_samples (fold (\<lambda>i ob. ob\<lparr>rb_samples := (rb_samples ob)
                        (outputChannel := (rb_samples ob outputChannel)(i := v i))\<rparr>) [0..<n] ob0)
     outputChannel i = (if i < n then v i else rb_samples ob0 outputChannel i)"
  by (induction n) (auto simp: less_Suc_eq)

lemma routing_fill_at:
  "i < rb_bufferSize outputBuffer \<Longrightarrow>
   rb_samples (routing_fill outputBuffer outputChannel v) outputChannel i = v i"
  by (simp add: routing_fill_def routing_fill_samples)

lemma Audio_OutputSample_muted:
  "ad_outputMute audioStatus ch \<noteq> 0 \<Longrightarrow> Audio_OutputSample audioStatus channels ch i = 0"
  by (simp add: Audio_OutputSample_def CLAMP_def MIN_f_def MAX_f_def)

text \<open>
  C9. When an output channel is muted, every sample of that channel is exactly zero: the
  routing stage writes 0.0 at every index of the channel's output buffer, whatever the
  source selection and the input; the output preparation turns every sample of the channel
  into 0.0 and stores the word 0, whatever the buffer holds, that is whatever the modules
  before it have computed.
\<close>

theorem muted_channel_is_silent:
  "(ar_outputMute audioRoutingConfig outputChannel \<noteq> 0 \<and> k < rb_bufferSize outputBuffer \<longrightarrow>
      rb_samples (ProcessChannelRouting audioRoutingConfig outputChannel inputBuffer outputBuffer)
        outputChannel k = 0)
   \<and> (ad_outputMute audioStatus ch \<noteq> 0 \<and> i < AUDIO_FRAME_SIZE \<and> ch < AUDIO_OUTPUT_CHANNELS \<longrightarrow>
        Audio_OutputSample audioStatus channels ch i = 0
      \<and> Audio_PrepareOutputSamples audioStatus dma offset channels
          (offset + (i * AUDIO_OUTPUT_CHANNELS + ch)) = 0)"
proof (intro conjI impI)
  assume "ar_outputMute audioRoutingConfig outputChannel \<noteq> 0 \<and> k < rb_bufferSize outputBuffer"
  then show "rb_samples (ProcessChannelRouting audioRoutingConfig outputChannel inputBuffer outputBuffer)
        outputChannel k = 0"
    by (simp add: ProcessChannelRouting_def routing_fill_at)
next
  assume a: "ad_outputMute audioStatus ch \<noteq> 0 \<and> i < AUDIO_FRAME_SIZE \<and> ch < AUDIO_OUTPUT_CHANNELS"
  then show z: "Audio_OutputSample audioStatus channels ch i = 0"
    by (simp add: Audio_OutputSample_muted)
  show "Audio_PrepareOutputSamples audioStatus dma offset channels
          (offset + (i * AUDIO_OUTPUT_CHANNELS + ch)) = 0"
    using a by (simp add: Audio_PrepareOutputSamples_at z FLOAT_TO_INT24_def c_trunc_def)
qed

theorem muted_channel_is_silent_witness:
  "rb_samples (ProcessChannelRouting ex_routing 3
       \<lparr>rb_samples = (\<lambda>ch i. 1), rb_bufferSize = 64\<rparr>
       \<lparr>rb_samples = (\<lambda>ch i. 5), rb_bufferSize = 64\<rparr>) 3 10 = 0
   \<and> Audio_OutputSample ex_audio_status (\<lambda>ch i. 3 / 4) 3 1 = 0
   \<and> Audio_PrepareOutputSamples ex_audio_status (\<lambda>k. 9) 0 (\<lambda>ch i. 3 / 4) 7 = 0"
proof -
  note t = muted_channel_is_silent[of ex_routing 3 10 "\<lparr>rb_samples = (\<lambda>ch i. 5), rb_bufferSize = 64\<rparr>"
      "\<lparr>rb_samples = (\<lambda>ch i. 1), rb_bufferSize = 64\<rparr>" ex_audio_status 3 1 "\<lambda>ch i. 3 / 4"
      "\<lambda>k. 9" 0]
  have h1: "ar_outputMute ex_routing 3 \<noteq> 0
            \<and> (10::nat) < rb_bufferSize \<lparr>rb_samples = (\<lambda>ch i. 5), rb_bufferSize = 64\<rparr>"
    by (simp add: ex_routing_def)
  have h2: "ad_outputMute ex_audio_status 3 \<noteq> 0 \<and> (1::nat) < AUDIO_FRAME_SIZE
            \<and> (3::nat) < AUDIO_OUTPUT_CHANNELS"
    by (simp add: ex_audio_status_def AUDIO_FRAME_SIZE_def AUDIO_OUTPUT_CHANNELS_def)
  from t h1 h2 show ?thesis by (simp add: AUDIO_OUTPUT_CHANNELS_def)
qed


section \<open>Zero-length and null buffers\<close>








section \<open>Setters and out-of-range values\<close>

lemma ApplyDelaySettings_currentDelayMs:
  "di_currentDelayMs (delayInstances (ApplyDelaySettings m channel) channel)
     = di_currentDelayMs (delayInstances m channel)"
  by (simp add: ApplyDelaySettings_def Let_def)

lemma PEQ_ConfigureBand_get:
  assumes "channel < AUDIO_OUTPUT_CHANNELS" "band < PEQ_MAX_BANDS_PER_CHANNEL"
  shows "\<exists>m1 c1 d1. PEQ_ConfigureBand setc uninit m channel band (Some c) = (HAL_OK, m1, Some c1)
           \<and> PEQ_GetBandConfig m1 channel band (Some d) = (HAL_OK, Some d1)
           \<and> pb_frequency d1 = max 20 (min 20000 (pb_frequency c))
           \<and> pb_q d1 = max (1 / 10) (min 10 (pb_q c))
           \<and> pb_gain d1 = max (- 12) (min 12 (pb_gain c))"
  using assms
  by (simp add: PEQ_ConfigureBand_def PEQ_GetBandConfig_def PEQ_UpdateFilterCoefficients_def Let_def)

text \<open>
  C6, as the code has it. \<^verbatim>\<open>PEQ_ConfigureBand\<close> clamps: for a valid channel and band it
  returns \<open>HAL_OK\<close> and a following \<^verbatim>\<open>PEQ_GetBandConfig\<close> returns the frequency clamped
  to \<open>[20, 20000]\<close>, the Q clamped to \<open>[0.1, 10]\<close> and the gain clamped to \<open>[-12, 12]\<close>.
  \<^verbatim>\<open>Delay_SetTime\<close> and \<^verbatim>\<open>Crossover_SetFrequency\<close> do not clamp: a delay below 0 or above
  the instance's maximum is answered with \<open>HAL_ERROR\<close>, a frequency outside
  \<open>[20, 20000]\<close> with status 1, and the module is left unchanged; a delay within the
  range is stored as given on an active channel.
\<close>

theorem setters_out_of_range:
  "(channel < AUDIO_OUTPUT_CHANNELS \<and> band < PEQ_MAX_BANDS_PER_CHANNEL \<longrightarrow>
      (\<exists>m1 c1 d1. PEQ_ConfigureBand setc uninit pm channel band (Some c) = (HAL_OK, m1, Some c1)
           \<and> PEQ_GetBandConfig m1 channel band (Some d) = (HAL_OK, Some d1)
           \<and> pb_frequency d1 = max 20 (min 20000 (pb_frequency c))
           \<and> pb_q d1 = max (1 / 10) (min 10 (pb_q c))
           \<and> pb_gain d1 = max (- 12) (min 12 (pb_gain c))))
   \<and> (delayMs < 0 \<or> delayMs > real (di_maxDelayMs (delayInstances dm channel)) \<longrightarrow>
        Delay_SetTime dm channel delayMs = (HAL_ERROR, dm))
   \<and> (channel < MAX_DELAY_CHANNELS \<and> di_isActive (delayInstances dm channel)
        \<and> 0 \<le> delayMs \<and> delayMs \<le> real (di_maxDelayMs (delayInstances dm channel)) \<longrightarrow>
        fst (Delay_SetTime dm channel delayMs) = HAL_OK
        \<and> di_currentDelayMs (delayInstances (snd (Delay_SetTime dm channel delayMs)) channel) = delayMs)
   \<and> (frequency < 20 \<or> frequency > 20000 \<longrightarrow>
        Crossover_SetFrequency ext xm channel frequencyType frequency = (1, xm))"
proof (intro conjI impI)
  assume "channel < AUDIO_OUTPUT_CHANNELS \<and> band < PEQ_MAX_BANDS_PER_CHANNEL"
  then show "\<exists>m1 c1 d1. PEQ_ConfigureBand setc uninit pm channel band (Some c) = (HAL_OK, m1, Some c1)
           \<and> PEQ_GetBandConfig m1 channel band (Some d) = (HAL_OK, Some d1)
           \<and> pb_frequency d1 = max 20 (min 20000 (pb_frequency c))
           \<and> pb_q d1 = max (1 / 10) (min 10 (pb_q c))
           \<and> pb_gain d1 = max (- 12) (min 12 (pb_gain c))"
    using PEQ_ConfigureBand_get by blast
next
  assume "delayMs < 0 \<or> delayMs > real (di_maxDelayMs (delayInstances dm channel))"
  then show "Delay_SetTime dm channel delayMs = (HAL_ERROR, dm)"
    by (auto simp: Delay_SetTime_def)
next
  assume a: "channel < MAX_DELAY_CHANNELS \<and> di_isActive (delayInstances dm channel)
        \<and> 0 \<le> delayMs \<and> delayMs \<le> real (di_maxDelayMs (delayInstances dm channel))"
  then show "fst (Delay_SetTime dm channel delayMs) = HAL_OK"
    by (simp add: Delay_SetTime_def Let_def)
  show "di_currentDelayMs (delayInstances (snd (Delay_SetTime dm channel delayMs)) channel) = delayMs"
    using a by (simp add: Delay_SetTime_def Let_def ApplyDelaySettings_currentDelayMs)
next
  assume "frequency < 20 \<or> frequency > 20000"
  then show "Crossover_SetFrequency ext xm channel frequencyType frequency = (1, xm)"
    by (auto simp: Crossover_SetFrequency_def CROSSOVER_MIN_FREQ_def CROSSOVER_MAX_FREQ_def)
qed

lemma four_delay_channels: "MAX_DELAY_CHANNELS = Suc (Suc (Suc (Suc 0)))"
  by (simp add: MAX_DELAY_CHANNELS_def)

lemma ex_delay_channel0:
  "delayInstances ex_delay 0 =
     \<lparr>di_isActive = True, di_bufferSize = 976, di_writeIndex = 0, di_sampleRate = 48000,
      di_maxDelayMs = 20, di_currentDelayMs = 1 / 16, di_currentDelayDistance = 343 / 160,
      di_delayUnit = DELAY_UNIT_MS, di_phaseInvert = False, di_enabled = True,
      di_filterCoeff = 7 / 10, di_prevSample = 0, di_buffer = Some ex_zero_buffer,
      di_delaySamples = 3\<rparr>"
proof -
  have z: "memset0 (memset0 (\<lambda>i. 0) 976) 976 = ex_zero_buffer"
    by (auto simp: memset0_def ex_zero_buffer_def fun_eq_iff)
  show ?thesis
    unfolding ex_delay_def ex_delay_configured_def ex_delay_init_def Delay_Init_def
      Delay_FlushBuffer_def Delay_ConfigChannel_def
    by (simp add: four_delay_channels AllocateDelayBuffer_def CalculateBufferSizeBytes_def
        MINIMUM_BUFFER_PADDING_def ex_delay0_def ex_delay_instance0_def Let_def
        ApplyDelaySettings_def SPEED_OF_SOUND_M_PER_SEC_def z)
qed

lemma ex_delay_mode: "interpolationMode ex_delay = DELAY_INTERPOLATION_LINEAR"
  unfolding ex_delay_def ex_delay_configured_def ex_delay_init_def Delay_Init_def
    Delay_FlushBuffer_def Delay_ConfigChannel_def
  by (simp add: four_delay_channels AllocateDelayBuffer_def CalculateBufferSizeBytes_def
      MINIMUM_BUFFER_PADDING_def ex_delay0_def ex_delay_instance0_def Let_def
      ApplyDelaySettings_def)

theorem setters_out_of_range_witness:
  "(\<exists>m1 c1 d1. PEQ_ConfigureBand Biquad_SetCoefficients ex_coeffs ex_peq 1 2
                  (Some (ex_peq_band\<lparr>pb_frequency := 5, pb_q := 50, pb_gain := 30\<rparr>))
                = (HAL_OK, m1, Some c1)
           \<and> PEQ_GetBandConfig m1 1 2 (Some ex_peq_band) = (HAL_OK, Some d1)
           \<and> pb_frequency d1 = 20 \<and> pb_q d1 = 10 \<and> pb_gain d1 = 12)
   \<and> Delay_SetTime ex_delay 0 25 = (HAL_ERROR, ex_delay)
   \<and> fst (Delay_SetTime ex_delay 0 5) = HAL_OK
   \<and> di_currentDelayMs (delayInstances (snd (Delay_SetTime ex_delay 0 5)) 0) = 5
   \<and> Crossover_SetFrequency ex_externals ex_crossover 0 CROSSOVER_FREQ_LOW 10 = (1, ex_crossover)"
proof -
  note t1 = setters_out_of_range[of 1 2 Biquad_SetCoefficients ex_coeffs ex_peq
      "ex_peq_band\<lparr>pb_frequency := 5, pb_q := 50, pb_gain := 30\<rparr>" ex_peq_band
      25 ex_delay 10 ex_externals ex_crossover CROSSOVER_FREQ_LOW]
  note t2 = setters_out_of_range[of 0 2 Biquad_SetCoefficients ex_coeffs ex_peq
      "ex_peq_band\<lparr>pb_frequency := 5, pb_q := 50, pb_gain := 30\<rparr>" ex_peq_band
      25 ex_delay 10 ex_externals ex_crossover CROSSOVER_FREQ_LOW]
  note t3 = setters_out_of_range[of 0 2 Biquad_SetCoefficients ex_coeffs ex_peq
      "ex_peq_band\<lparr>pb_frequency := 5, pb_q := 50, pb_gain := 30\<rparr>" ex_peq_band
      5 ex_delay 10 ex_externals ex_crossover CROSSOVER_FREQ_LOW]
  have h1: "(1::nat) < AUDIO_OUTPUT_CHANNELS \<and> (2::nat) < PEQ_MAX_BANDS_PER_CHANNEL"
    by (simp add: AUDIO_OUTPUT_CHANNELS_def PEQ_MAX_BANDS_PER_CHANNEL_def)
  have h2: "(25::real) < 0 \<or> 25 > real (di_maxDelayMs (delayInstances ex_delay 0))"
    by (simp add: ex_delay_channel0)
  have h3: "(0::nat) < MAX_DELAY_CHANNELS \<and> di_isActive (delayInstances ex_delay 0)
        \<and> (0::real) \<le> 5 \<and> 5 \<le> real (di_maxDelayMs (delayInstances ex_delay 0))"
    by (simp add: ex_delay_channel0 MAX_DELAY_CHANNELS_def)
  have h4: "(10::real) < 20 \<or> (10::real) > 20000" by simp
  from t1 h1 obtain m1 c1 d1 where p:
    "PEQ_ConfigureBand Biquad_SetCoefficients ex_coeffs ex_peq 1 2
        (Some (ex_peq_band\<lparr>pb_frequency := 5, pb_q := 50, pb_gain := 30\<rparr>)) = (HAL_OK, m1, Some c1)"
    "PEQ_GetBandConfig m1 1 2 (Some ex_peq_band) = (HAL_OK, Some d1)"
    "pb_frequency d1 = max 20 (min 20000 (pb_frequency (ex_peq_band\<lparr>pb_frequency := 5, pb_q := 50, pb_gain := 30\<rparr>)))"
    "pb_q d1 = max (1 / 10) (min 10 (pb_q (ex_peq_band\<lparr>pb_frequency := 5, pb_q := 50, pb_gain := 30\<rparr>)))"
    "pb_gain d1 = max (- 12) (min 12 (pb_gain (ex_peq_band\<lparr>pb_frequency := 5, pb_q := 50, pb_gain := 30\<rparr>)))"
    by blast
  have v: "pb_frequency d1 = 20" "pb_q d1 = 10" "pb_gain d1 = 12"
    using p(3-5) by simp_all
  from t2 h2 have d: "Delay_SetTime ex_delay 0 25 = (HAL_ERROR, ex_delay)" by blast
  from t3 h3 have e: "fst (Delay_SetTime ex_delay 0 5) = HAL_OK"
    "di_currentDelayMs (delayInstances (snd (Delay_SetTime ex_delay 0 5)) 0) = 5" by blast+
  from t2 h4 have x: "Crossover_SetFrequency ex_externals ex_crossover 0 CROSSOVER_FREQ_LOW 10
                      = (1, ex_crossover)" by blast
  from p(1,2) v d e x show ?thesis by blast
qed

text \<open>The claim as stated fails: with a maximum of 20 ms, setting 25 ms is not clamped to
  20 ms but refused, and the stored delay stays at its old value of 1/16 ms.\<close>

theorem delay_set_time_counterexample:
  "fst (Delay_SetTime ex_delay 0 25) = HAL_ERROR
   \<and> di_maxDelayMs (delayInstances ex_delay 0) = 20
   \<and> di_currentDelayMs (delayInstances (snd (Delay_SetTime ex_delay 0 25)) 0) = 1 / 16"
  by (simp add: Delay_SetTime_def ex_delay_channel0 MAX_DELAY_CHANNELS_def)


section \<open>Bypass\<close>














section \<open>Frequency handed to the filter designer\<close>

lemma BilinearTransform_w0: "fc_w0 (BilinearTransform c fs) = fc_w0 c"
  by (simp add: BilinearTransform_def Let_def)

lemma NormalizeCoefficients_w0: "fc_w0 (NormalizeCoefficients c) = fc_w0 c"
  by (simp add: NormalizeCoefficients_def Let_def)

lemma finish_all_pass:
  "fc_b1 (NormalizeCoefficients (BilinearTransform (c\<lparr>fc_b1 := v, fc_a0 := 1\<rparr>) fs)) = v"
  by (simp add: NormalizeCoefficients_def BilinearTransform_def Let_def)

lemma FilterDesign_Create_success:
  assumes "0 < freq" "0 < fs" "t \<noteq> FILTER_TYPE_NONE"
  shows "\<exists>r. FilterDesign_Create (Some c) t freq Q g fs = (FILTER_DESIGN_SUCCESS, Some r)
           \<and> (t \<noteq> FILTER_TYPE_ALL_PASS \<longrightarrow> fc_w0 r = FilterDesign_Create_freq freq fs)
           \<and> (t = FILTER_TYPE_ALL_PASS \<longrightarrow>
                fc_b1 r = - 2 * cos (2 * pi * FilterDesign_Create_freq freq fs / fs))"
proof (cases t)
  case FILTER_TYPE_NONE
  then show ?thesis using assms by simp
next
  case FILTER_TYPE_LOWPASS
  then show ?thesis using assms
    by (simp add: FilterDesign_Create_def Let_def BilinearTransform_w0 NormalizeCoefficients_w0
        DesignSecondOrderLowPass_def)
next
  case FILTER_TYPE_HIGHPASS
  then show ?thesis using assms
    by (simp add: FilterDesign_Create_def Let_def BilinearTransform_w0 NormalizeCoefficients_w0
        DesignSecondOrderHighPass_def)
next
  case FILTER_TYPE_BANDPASS
  then show ?thesis using assms
    by (simp add: FilterDesign_Create_def Let_def BilinearTransform_w0 NormalizeCoefficients_w0
        DesignSecondOrderBandPass_def)
next
  case FILTER_TYPE_BANDSTOP
  then show ?thesis using assms
    by (simp add: FilterDesign_Create_def Let_def BilinearTransform_w0 NormalizeCoefficients_w0
        DesignSecondOrderBandStop_def)
next
  case FILTER_TYPE_LOW_SHELF
  then show ?thesis using assms
    by (simp add: FilterDesign_Create_def Let_def BilinearTransform_w0 NormalizeCoefficients_w0
        DesignLowShelf_def split: prod.splits)
next
  case FILTER_TYPE_HIGH_SHELF
  then show ?thesis using assms
    by (simp add: FilterDesign_Create_def Let_def BilinearTransform_w0 NormalizeCoefficients_w0
        DesignHighShelf_def split: prod.splits)
next
  case FILTER_TYPE_PEAKING_EQ
  then show ?thesis using assms
    by (simp add: FilterDesign_Create_def Let_def BilinearTransform_w0 NormalizeCoefficients_w0
        DesignPeakingEQ_def)
next
  case FILTER_TYPE_ALL_PASS
  have "fc_b1 (NormalizeCoefficients (BilinearTransform
          (\<lparr>fc_b0 = 0, fc_b1 = 0, fc_b2 = 0, fc_a0 = 1, fc_a1 = 0, fc_a2 = 0, fc_w0 = 0, fc_Q = 0\<rparr>
             \<lparr>fc_b0 := 1, fc_b1 := v, fc_b2 := 1, fc_a0 := 1, fc_a1 := v, fc_a2 := 1\<rparr>) fs)) = v" for v
    by (simp add: NormalizeCoefficients_def BilinearTransform_def Let_def)
  then show ?thesis using assms FILTER_TYPE_ALL_PASS
    by (simp add: FilterDesign_Create_def Let_def)
qed

text \<open>
  C4, as the code has it. The designer does not clamp into \<open>[20, 20000]\<close>. A frequency
  that is zero or negative is refused with the parameter error and the coefficient set is
  left as it was. A positive frequency, with a positive sample rate and a filter type the
  designer knows, always gives a successful design, and the frequency used in it is the
  input itself when that is below half the sample rate, and half the sample rate minus one
  otherwise: for the seven types with a designer of their own it is the frequency recorded
  in the result, for the all-pass type it is the frequency under the cosine.
\<close>

theorem FilterDesign_Create_frequency:
  "(freq \<le> 0 \<longrightarrow>
      FilterDesign_Create (Some c) t freq Q g fs = (FILTER_DESIGN_ERROR_PARAMS, Some c))
   \<and> (0 < freq \<and> 0 < fs \<and> t \<noteq> FILTER_TYPE_NONE \<longrightarrow>
        (\<exists>r. FilterDesign_Create (Some c) t freq Q g fs = (FILTER_DESIGN_SUCCESS, Some r)
           \<and> (t \<noteq> FILTER_TYPE_ALL_PASS \<longrightarrow>
                fc_w0 r = (if freq \<ge> fs / 2 then fs / 2 - 1 else freq))
           \<and> (t = FILTER_TYPE_ALL_PASS \<longrightarrow>
                fc_b1 r = - 2 * cos (2 * pi * (if freq \<ge> fs / 2 then fs / 2 - 1 else freq) / fs))))"
proof (intro conjI impI)
  assume "freq \<le> 0"
  then show "FilterDesign_Create (Some c) t freq Q g fs = (FILTER_DESIGN_ERROR_PARAMS, Some c)"
    by (simp add: FilterDesign_Create_def)
next
  assume "0 < freq \<and> 0 < fs \<and> t \<noteq> FILTER_TYPE_NONE"
  then show "\<exists>r. FilterDesign_Create (Some c) t freq Q g fs = (FILTER_DESIGN_SUCCESS, Some r)
           \<and> (t \<noteq> FILTER_TYPE_ALL_PASS \<longrightarrow>
                fc_w0 r = (if freq \<ge> fs / 2 then fs / 2 - 1 else freq))
           \<and> (t = FILTER_TYPE_ALL_PASS \<longrightarrow>
                fc_b1 r = - 2 * cos (2 * pi * (if freq \<ge> fs / 2 then fs / 2 - 1 else freq) / fs))"
    using FilterDesign_Create_success[of freq fs t c Q g]
    unfolding FilterDesign_Create_freq_def by blast
qed

theorem FilterDesign_Create_frequency_witness:
  "FilterDesign_Create (Some ex_filter_coeffs) FILTER_TYPE_PEAKING_EQ (- 5) 1 3 48000
     = (FILTER_DESIGN_ERROR_PARAMS, Some ex_filter_coeffs)
   \<and> (\<exists>r. FilterDesign_Create (Some ex_filter_coeffs) FILTER_TYPE_PEAKING_EQ 30000 1 3 48000
            = (FILTER_DESIGN_SUCCESS, Some r) \<and> fc_w0 r = 23999)
   \<and> (\<exists>r. FilterDesign_Create (Some ex_filter_coeffs) FILTER_TYPE_PEAKING_EQ 1000 1 3 48000
            = (FILTER_DESIGN_SUCCESS, Some r) \<and> fc_w0 r = 1000)"
proof -
  note t1 = FilterDesign_Create_frequency[of "- 5" ex_filter_coeffs FILTER_TYPE_PEAKING_EQ 1 3 48000]
  note t2 = FilterDesign_Create_frequency[of 30000 ex_filter_coeffs FILTER_TYPE_PEAKING_EQ 1 3 48000]
  note t3 = FilterDesign_Create_frequency[of 1000 ex_filter_coeffs FILTER_TYPE_PEAKING_EQ 1 3 48000]
  have h1: "(- 5::real) \<le> 0" by simp
  have h2: "(0::real) < 30000 \<and> (0::real) < 48000 \<and> FILTER_TYPE_PEAKING_EQ \<noteq> FILTER_TYPE_NONE"
    by simp
  have h3: "(0::real) < 1000 \<and> (0::real) < 48000 \<and> FILTER_TYPE_PEAKING_EQ \<noteq> FILTER_TYPE_NONE"
    by simp
  from t1 h1 have a: "FilterDesign_Create (Some ex_filter_coeffs) FILTER_TYPE_PEAKING_EQ (- 5) 1 3 48000
     = (FILTER_DESIGN_ERROR_PARAMS, Some ex_filter_coeffs)" by blast
  from t2 h2 obtain r2 where b:
    "FilterDesign_Create (Some ex_filter_coeffs) FILTER_TYPE_PEAKING_EQ 30000 1 3 48000
       = (FILTER_DESIGN_SUCCESS, Some r2)"
    "fc_w0 r2 = (if (30000::real) \<ge> 48000 / 2 then 48000 / 2 - 1 else 30000)" by auto
  from t3 h3 obtain r3 where c:
    "FilterDesign_Create (Some ex_filter_coeffs) FILTER_TYPE_PEAKING_EQ 1000 1 3 48000
       = (FILTER_DESIGN_SUCCESS, Some r3)"
    "fc_w0 r3 = (if (1000::real) \<ge> 48000 / 2 then 48000 / 2 - 1 else 1000)" by auto
  have "fc_w0 r2 = 23999" "fc_w0 r3 = 1000" using b(2) c(2) by simp_all
  with a b(1) c(1) show ?thesis by blast
qed

text \<open>The claim as stated fails: at 48 kHz a low-pass requested at 10 Hz is designed at
  10 Hz, not at 20 Hz, one requested at 22 kHz is designed at 22 kHz, not at 20 kHz, and a
  request at 0 Hz yields no design at all.\<close>

theorem FilterDesign_Create_clamp_counterexample:
  "map_option fc_w0 (snd (FilterDesign_Create (Some ex_filter_coeffs) FILTER_TYPE_LOWPASS
                            10 (7071 / 10000) 0 48000)) = Some 10
   \<and> map_option fc_w0 (snd (FilterDesign_Create (Some ex_filter_coeffs) FILTER_TYPE_LOWPASS
                              22000 (7071 / 10000) 0 48000)) = Some 22000
   \<and> fst (FilterDesign_Create (Some ex_filter_coeffs) FILTER_TYPE_LOWPASS
             0 (7071 / 10000) 0 48000) = FILTER_DESIGN_ERROR_PARAMS"
  by (simp add: FilterDesign_Create_def FilterDesign_Create_freq_def Let_def
      BilinearTransform_w0 NormalizeCoefficients_w0 DesignSecondOrderLowPass_def)


section \<open>Impulse response of the delay line\<close>

lemma wrap_nonneg: "0 \<le> p \<Longrightarrow> wrap_readPos p s = Some p"
  by (subst wrap_readPos.simps) simp

lemma wrap_once: "p < 0 \<Longrightarrow> 0 \<le> p + s \<Longrightarrow> wrap_readPos p s = Some (p + s)"
  by (subst wrap_readPos.simps) (simp add: wrap_nonneg)

lemma c_trunc_nat: "c_trunc (real k) = int k"
  by (simp add: c_trunc_def)

lemma Modulo_small:
  assumes "k < B" "B < 2 ^ 31"
  shows "ModuloBufferSize (int k) B = k"
proof -
  have "int k < 2 ^ 32" using assms by simp
  then have "int k mod 2 ^ 32 = int k" by simp
  then show ?thesis using assms by (simp add: ModuloBufferSize_def)
qed

lemma Modulo_succ:
  assumes "k < B" "B < 2 ^ 31"
  shows "ModuloBufferSize (int k + 1) B = Suc k mod B"
proof -
  have e: "int k + 1 = int (Suc k)" by simp
  have "int (Suc k) < 2 ^ 32" using assms by simp
  then have m: "int (Suc k) mod 2 ^ 32 = int (Suc k)" by simp
  have "int (Suc k) mod int B = int (Suc k mod B)" by (simp only: of_nat_mod)
  then show ?thesis unfolding ModuloBufferSize_def e using m by simp
qed

lemma read_index:
  fixes w B N :: nat
  assumes "w < B" "N < B"
  shows "wrap_readPos (real w - real N) (real B)
           = Some (real (if N \<le> w then w - N else w + B - N))"
    and "(if N \<le> w then w - N else w + B - N) < B"
    and "(if N \<le> w then w - N else w + B - N) = w \<longleftrightarrow> N = 0"
    and "(if N \<le> w then w - N else w + B - N) = 0 \<longleftrightarrow> w = N"
proof -
  show "wrap_readPos (real w - real N) (real B)
           = Some (real (if N \<le> w then w - N else w + B - N))"
  proof (cases "N \<le> w")
    case True
    then show ?thesis by (simp add: wrap_nonneg of_nat_diff)
  next
    case False
    then have "real w - real N < 0" "0 \<le> real w - real N + real B" using assms by simp_all
    then have "wrap_readPos (real w - real N) (real B) = Some (real w - real N + real B)"
      by (rule wrap_once)
    moreover have "real (w + B - N) = real w - real N + real B" using assms by (simp add: of_nat_diff)
    ultimately show ?thesis using False by simp
  qed
  show "(if N \<le> w then w - N else w + B - N) < B" using assms by auto
  show "(if N \<le> w then w - N else w + B - N) = w \<longleftrightarrow> N = 0" using assms by auto
  show "(if N \<le> w then w - N else w + B - N) = 0 \<longleftrightarrow> w = N" using assms by auto
qed

lemma raw_tap:
  fixes t B N :: nat
  assumes "N < B" "N \<noteq> 0"
  shows "(t mod B = N \<and> 1 \<le> t \<and> t \<le> B) \<longleftrightarrow> t = N"
proof
  assume a: "t mod B = N \<and> 1 \<le> t \<and> t \<le> B"
  show "t = N"
  proof (cases "t = B")
    case True
    then show ?thesis using a assms by simp
  next
    case False
    then have "t < B" using a by simp
    then show ?thesis using a by simp
  qed
next
  assume "t = N"
  then show "t mod B = N \<and> 1 \<le> t \<and> t \<le> B" using assms by simp
qed

lemma smoothed_impulse_step:
  "(if t = N then 1 else 0) * (1 - c) + (if t = 0 then 0 else smoothed_impulse c N (t - 1)) * c
     = smoothed_impulse c N t"
proof -
  consider "t < N" | "t = N" | "N < t" by linarith
  then show ?thesis
  proof cases
    case 1
    then have "t - 1 < N" "t \<noteq> N" by simp_all
    then show ?thesis using 1 by (simp add: smoothed_impulse_def)
  next
    case 2
    then show ?thesis by (simp add: smoothed_impulse_def)
  next
    case 3
    then have e: "t - N = Suc (t - 1 - N)" and "t \<noteq> 0" "t \<noteq> N" "\<not> t < N" "\<not> t - 1 < N" by simp_all
    then show ?thesis by (simp add: smoothed_impulse_def)
  qed
qed

lemma delay_step:
  assumes B: "0 < B" "B < 2 ^ 31" and N: "N < B" and ph: "\<not> di_phaseInvert inst"
  shows "ProcessSampleWithDelay DELAY_INTERPOLATION_LINEAR (delay_state_at inst b B N t) (impulse t)
       = Some (smoothed_impulse (di_filterCoeff inst) N t, delay_state_at inst b B N (Suc t))"
proof -
  define w where "w = t mod B"
  define k where "k = (if N \<le> w then w - N else w + B - N)"
  let ?c = "di_filterCoeff inst"
  define buf where
    "buf = (\<lambda>i. if i < B then (if i = 0 \<and> 1 \<le> t \<and> t \<le> B then (1::real) else 0) else b i)"
  have wB: "w < B" using B(1) by (simp add: w_def)
  note ri = read_index[OF wB N, folded k_def]
  have raw: "(buf(w := impulse t)) k = (if t = N then 1 else 0)"
  proof (cases "N = 0")
    case True
    then have "k = w" using ri(3) by simp
    then show ?thesis using True by (simp add: impulse_def)
  next
    case False
    then have kw: "k \<noteq> w" using ri(3) by simp
    have "(k = 0 \<and> 1 \<le> t \<and> t \<le> B) \<longleftrightarrow> t = N"
      using raw_tap[OF N False, of t] ri(4) by (simp add: w_def)
    then show ?thesis using kw ri(2) by (auto simp: buf_def)
  qed
  have newbuf: "buf(w := impulse t)
      = (\<lambda>i. if i < B then (if i = 0 \<and> 1 \<le> Suc t \<and> Suc t \<le> B then 1 else 0) else b i)"
  proof (rule ext)
    fix i
    show "(buf(w := impulse t)) i
        = (if i < B then (if i = 0 \<and> 1 \<le> Suc t \<and> Suc t \<le> B then 1 else 0) else b i)"
    proof (cases "i = w")
      case True
      show ?thesis
      proof (cases "t = 0")
        case True
        then show ?thesis using \<open>i = w\<close> B(1) by (simp add: w_def impulse_def)
      next
        case False
        have "Suc t \<le> B \<Longrightarrow> w = t" by (simp add: w_def)
        then have "\<not> (w = 0 \<and> Suc t \<le> B)" using False by auto
        then show ?thesis using \<open>i = w\<close> False wB by (auto simp: impulse_def)
      qed
    next
      case False
      show ?thesis
      proof (cases "i = 0")
        case True
        then have w0: "w \<noteq> 0" using False by simp
        then have "t \<noteq> 0" "t \<noteq> B" by (cases "t = 0"; auto simp: w_def)+
        then show ?thesis using False True by (auto simp: buf_def)
      next
        case False
        then show ?thesis using \<open>i \<noteq> w\<close> by (simp add: buf_def)
      qed
    qed
  qed
  have kB31: "\<not> (2::int) ^ 31 \<le> int k" using ri(2) B(2) by simp
  define P where "P = (if t = 0 then 0 else smoothed_impulse ?c N (t - 1))"
  define nb where "nb = buf(w := impulse t)"
  have out': "nb k * (1 - ?c) + P * ?c = smoothed_impulse ?c N t"
    unfolding P_def nb_def raw by (rule smoothed_impulse_step)
  have "ProcessSampleWithDelay DELAY_INTERPOLATION_LINEAR (delay_state_at inst b B N t) (impulse t)
      = Some (nb k * (1 - ?c) + P * ?c,
              inst\<lparr>di_bufferSize := B, di_delaySamples := real N, di_buffer := Some nb,
                   di_prevSample := nb k * (1 - ?c) + P * ?c, di_writeIndex := Suc w mod B\<rparr>)"
    unfolding ProcessSampleWithDelay_def delay_state_at_def nb_def
    using ri(1) kB31 B(1) ph
    by (simp add: w_def[symmetric] c_trunc_nat Modulo_small[OF ri(2) B(2)]
        Modulo_succ[OF wB B(2)] InterpolateLinear_def Let_def buf_def[symmetric]
        P_def[symmetric] split del: if_split)
  also have "\<dots> = Some (smoothed_impulse ?c N t, delay_state_at inst b B N (Suc t))"
    unfolding out' unfolding nb_def newbuf delay_state_at_def by (simp add: w_def mod_Suc_eq)
  finally show ?thesis by simp
qed

lemma delay_loop:
  assumes B: "0 < B" "B < 2 ^ 31" and N: "N < B" and ph: "\<not> di_phaseInvert inst"
  shows "\<forall>i\<ge>t. p i = impulse i \<Longrightarrow>
     Delay_Process_loop DELAY_INTERPOLATION_LINEAR n t (delay_state_at inst b B N t) p
       = Some (delay_state_at inst b B N (t + n),
               \<lambda>i. if t \<le> i \<and> i < t + n then smoothed_impulse (di_filterCoeff inst) N i else p i)"
proof (induction n arbitrary: t p)
  case 0
  then show ?case by (auto simp: fun_eq_iff)
next
  case (Suc n)
  have pt: "p t = impulse t" using Suc.prems by simp
  have nx: "\<forall>i\<ge>Suc t. (p(t := smoothed_impulse (di_filterCoeff inst) N t)) i = impulse i"
    using Suc.prems by simp
  show ?case
    by (simp add: pt delay_step[OF B N ph] Suc.IH[OF nx] fun_eq_iff)
qed

lemma Delay_Process_flushed:
  assumes ch: "channel < MAX_DELAY_CHANNELS" and n: "0 < n"
    and act: "di_isActive (delayInstances m channel)" "di_enabled (delayInstances m channel)"
    and buf: "di_buffer (delayInstances m channel) = Some b"
             "\<forall>i<di_bufferSize (delayInstances m channel). b i = 0"
    and st: "di_writeIndex (delayInstances m channel) = 0"
            "di_prevSample (delayInstances m channel) = 0"
    and B: "0 < di_bufferSize (delayInstances m channel)"
           "di_bufferSize (delayInstances m channel) < 2 ^ 31"
    and N: "di_delaySamples (delayInstances m channel) = real N"
           "N < di_bufferSize (delayInstances m channel)"
    and ph: "\<not> di_phaseInvert (delayInstances m channel)"
    and mode: "interpolationMode m = DELAY_INTERPOLATION_LINEAR"
  shows "Delay_Process m channel (Some impulse) n
     = Some (HAL_OK,
             m\<lparr>delayInstances := (delayInstances m)
                 (channel := delay_state_at (delayInstances m channel) b
                               (di_bufferSize (delayInstances m channel)) N n)\<rparr>,
             Some (\<lambda>i. if i < n then smoothed_impulse (di_filterCoeff (delayInstances m channel)) N i
                        else impulse i))"
proof -
  define inst where "inst = delayInstances m channel"
  define B where "B = di_bufferSize inst"
  have b0: "(\<lambda>i. if i < B then (if i = 0 \<and> 1 \<le> (0::nat) \<and> 0 \<le> B then (1::real) else 0) else b i) = b"
    using buf(2) by (auto simp: fun_eq_iff B_def inst_def)
  have start: "delay_state_at inst b B N 0 = inst"
    unfolding delay_state_at_def b0 using buf(1) st N(1) by (simp add: inst_def[symmetric] B_def)
  have "Delay_Process_loop DELAY_INTERPOLATION_LINEAR n 0 (delay_state_at inst b B N 0) impulse
       = Some (delay_state_at inst b B N (0 + n),
               \<lambda>i. if 0 \<le> i \<and> i < 0 + n then smoothed_impulse (di_filterCoeff inst) N i else impulse i)"
    using B N(2) ph by (intro delay_loop) (simp_all add: B_def inst_def)
  then have "Delay_Process_loop DELAY_INTERPOLATION_LINEAR n 0 inst impulse
       = Some (delay_state_at inst b B N n,
               \<lambda>i. if i < n then smoothed_impulse (di_filterCoeff inst) N i else impulse i)"
    by (simp add: start)
  then show ?thesis
    unfolding inst_def[symmetric] B_def[symmetric]
    using ch n act mode by (simp add: Delay_Process_def inst_def[symmetric])
qed

text \<open>
  C7, as the code has it. A delay channel that is active and enabled, with linear
  interpolation, no phase inversion, a buffer of \<open>B\<close> samples (\<open>0 < B < 2^31\<close>) and a delay
  of exactly \<open>N < B\<close> samples, is flushed and then fed \<open>n\<close> samples of the impulse. The call
  succeeds, and the output is zero before index \<open>N\<close> and \<open>(1 - c) * c ^ (t - N)\<close> at every
  index \<open>t\<close> from \<open>N\<close> on, where \<open>c\<close> is the coefficient of the one-pole smoothing filter that
  follows the delay line. It is the impulse at index \<open>N\<close> only when that coefficient is
  zero; \<^verbatim>\<open>Delay_Init\<close> sets it to 0.7.
\<close>

theorem delay_impulse_response:
  assumes "channel < MAX_DELAY_CHANNELS" and "0 < n"
    and "di_isActive (delayInstances m channel)" and "di_enabled (delayInstances m channel)"
    and "di_buffer (delayInstances m channel) = Some b"
    and "0 < di_bufferSize (delayInstances m channel)"
    and "di_bufferSize (delayInstances m channel) < 2 ^ 31"
    and "di_delaySamples (delayInstances m channel) = real N"
    and "N < di_bufferSize (delayInstances m channel)"
    and "\<not> di_phaseInvert (delayInstances m channel)"
    and "interpolationMode m = DELAY_INTERPOLATION_LINEAR"
  shows "\<exists>m1 out. Delay_Process (snd (Delay_FlushBuffer m channel)) channel (Some impulse) n
                     = Some (HAL_OK, m1, Some out)
           \<and> (\<forall>t<n. out t = smoothed_impulse (di_filterCoeff (delayInstances m channel)) N t)
           \<and> (di_filterCoeff (delayInstances m channel) = 0 \<longrightarrow>
                (\<forall>t<n. out t = (if t = N then 1 else 0)))"
proof -
  define mf where "mf = snd (Delay_FlushBuffer m channel)"
  have inst: "delayInstances mf channel
      = (delayInstances m channel)
          \<lparr>di_buffer := Some (memset0 b (di_bufferSize (delayInstances m channel))),
           di_writeIndex := 0, di_prevSample := 0\<rparr>"
    and mode: "interpolationMode mf = DELAY_INTERPOLATION_LINEAR"
    using assms by (simp_all add: mf_def Delay_FlushBuffer_def Let_def)
  have z: "smoothed_impulse 0 N t = (if t = N then 1 else 0)" for t
    by (auto simp: smoothed_impulse_def)
  have "Delay_Process mf channel (Some impulse) n
     = Some (HAL_OK,
             mf\<lparr>delayInstances := (delayInstances mf)
                 (channel := delay_state_at (delayInstances mf channel)
                               (memset0 b (di_bufferSize (delayInstances m channel)))
                               (di_bufferSize (delayInstances mf channel)) N n)\<rparr>,
             Some (\<lambda>i. if i < n then smoothed_impulse (di_filterCoeff (delayInstances mf channel)) N i
                        else impulse i))"
    using assms by (intro Delay_Process_flushed) (simp_all add: inst mode memset0_def)
  then show ?thesis
    unfolding mf_def[symmetric] by (auto simp: inst z)
qed

theorem delay_impulse_response_witness:
  "\<exists>m1 out. Delay_Process (snd (Delay_FlushBuffer ex_delay 0)) 0 (Some impulse) 5
               = Some (HAL_OK, m1, Some out)
     \<and> out 0 = 0 \<and> out 2 = 0 \<and> out 3 = 3 / 10 \<and> out 4 = 21 / 100"
proof -
  have "\<exists>m1 out. Delay_Process (snd (Delay_FlushBuffer ex_delay 0)) 0 (Some impulse) 5
                     = Some (HAL_OK, m1, Some out)
           \<and> (\<forall>t<5. out t = smoothed_impulse (di_filterCoeff (delayInstances ex_delay 0)) 3 t)
           \<and> (di_filterCoeff (delayInstances ex_delay 0) = 0 \<longrightarrow>
                (\<forall>t<5. out t = (if t = 3 then 1 else 0)))"
    by (rule delay_impulse_response[where b = ex_zero_buffer])
      (simp_all add: ex_delay_channel0 ex_delay_mode MAX_DELAY_CHANNELS_def)
  then obtain m1 out where
    p: "Delay_Process (snd (Delay_FlushBuffer ex_delay 0)) 0 (Some impulse) 5
          = Some (HAL_OK, m1, Some out)"
    and o: "\<forall>t<5. out t = smoothed_impulse (7 / 10) 3 t"
    by (auto simp: ex_delay_channel0)
  have "out 0 = smoothed_impulse (7 / 10) 3 0" "out 2 = smoothed_impulse (7 / 10) 3 2"
    "out 3 = smoothed_impulse (7 / 10) 3 3" "out 4 = smoothed_impulse (7 / 10) 3 4"
    using o by simp_all
  then have "out 0 = 0 \<and> out 2 = 0 \<and> out 3 = 3 / 10 \<and> out 4 = 21 / 100"
    by (simp add: smoothed_impulse_def)
  with p show ?thesis by blast
qed

text \<open>The claim as stated fails: on a channel set up by \<^verbatim>\<open>Delay_Init\<close> at 48 kHz,
  configured to 1/16 ms, which is exactly 3 samples, and flushed, the impulse gives
  0.3 at index 3 and 0.21 at index 4, not 1 and 0.\<close>

theorem delay_impulse_counterexample:
  "di_delaySamples (delayInstances ex_delay 0) = 3
   \<and> Delay_Process_out ex_delay 0 impulse 5 = Some (HAL_OK, Some [0, 0, 0, 3 / 10, 21 / 100])"
proof -
  have five: "[0..<5] = [0, 1, 2, 3, 4]" by (simp add: upt_rec)
  have "Delay_Process ex_delay 0 (Some impulse) 5
     = Some (HAL_OK,
             ex_delay\<lparr>delayInstances := (delayInstances ex_delay)
                 (0 := delay_state_at (delayInstances ex_delay 0) ex_zero_buffer
                               (di_bufferSize (delayInstances ex_delay 0)) 3 5)\<rparr>,
             Some (\<lambda>i. if i < 5 then smoothed_impulse (di_filterCoeff (delayInstances ex_delay 0)) 3 i
                        else impulse i))"
    by (rule Delay_Process_flushed)
      (simp_all add: ex_delay_channel0 ex_delay_mode MAX_DELAY_CHANNELS_def ex_zero_buffer_def)
  then show ?thesis
    by (simp add: Delay_Process_out_def five ex_delay_channel0 smoothed_impulse_def)
qed


section \<open>Reconfiguring one equaliser band\<close>

lemma PEQ_limits_inactive:
  "20 \<le> F \<Longrightarrow> F \<le> 20000 \<Longrightarrow> peq_limit_freq F (real AUDIO_SAMPLE_RATE) = F"
  "Q \<le> 10 \<Longrightarrow> peq_limit_Q Q = Q"
  by (simp_all add: peq_limit_freq_def peq_limit_Q_def PEQ_MAX_Q_FACTOR_def AUDIO_SAMPLE_RATE_def
      Let_def)

lemma PEQ_band_coeffs_explicit:
  assumes r: "20 \<le> pb_frequency c" "pb_frequency c \<le> 20000" "pb_q c \<le> 10"
    and w: "w = 2 * pi * pb_frequency c / 48000"
    and alpha: "alpha = sin w / (2 * pb_q c)"
    and A: "A = 10 powr (pb_gain c / 40)"
    and beta: "beta = 2 * sqrt A * alpha"
  shows "PEQ_band_coeffs uninit c =
           (case pb_type c of
              PEQ_TYPE_BELL \<Rightarrow>
                \<lparr>bc_b0 = (1 + alpha * A) / (1 + alpha / A),
                 bc_b1 = - 2 * cos w / (1 + alpha / A),
                 bc_b2 = (1 - alpha * A) / (1 + alpha / A),
                 bc_a0 = 1,
                 bc_a1 = - 2 * cos w / (1 + alpha / A),
                 bc_a2 = (1 - alpha / A) / (1 + alpha / A)\<rparr>
            | PEQ_TYPE_LOW_SHELF \<Rightarrow>
                \<lparr>bc_b0 = A * ((A + 1) - (A - 1) * cos w + beta) / ((A + 1) + (A - 1) * cos w + beta),
                 bc_b1 = 2 * A * ((A - 1) - (A + 1) * cos w) / ((A + 1) + (A - 1) * cos w + beta),
                 bc_b2 = A * ((A + 1) - (A - 1) * cos w - beta) / ((A + 1) + (A - 1) * cos w + beta),
                 bc_a0 = 1,
                 bc_a1 = - 2 * ((A - 1) + (A + 1) * cos w) / ((A + 1) + (A - 1) * cos w + beta),
                 bc_a2 = ((A + 1) + (A - 1) * cos w - beta) / ((A + 1) + (A - 1) * cos w + beta)\<rparr>
            | PEQ_TYPE_HIGH_SHELF \<Rightarrow>
                \<lparr>bc_b0 = A * ((A + 1) + (A - 1) * cos w + beta) / ((A + 1) - (A - 1) * cos w + beta),
                 bc_b1 = - 2 * A * ((A - 1) + (A + 1) * cos w) / ((A + 1) - (A - 1) * cos w + beta),
                 bc_b2 = A * ((A + 1) + (A - 1) * cos w - beta) / ((A + 1) - (A - 1) * cos w + beta),
                 bc_a0 = 1,
                 bc_a1 = 2 * ((A - 1) - (A + 1) * cos w) / ((A + 1) - (A - 1) * cos w + beta),
                 bc_a2 = ((A + 1) - (A - 1) * cos w - beta) / ((A + 1) - (A - 1) * cos w + beta)\<rparr>
            | PEQ_TYPE_LOW_PASS \<Rightarrow>
                \<lparr>bc_b0 = (1 - cos w) / 2 / (1 + alpha),
                 bc_b1 = (1 - cos w) / (1 + alpha),
                 bc_b2 = (1 - cos w) / 2 / (1 + alpha),
                 bc_a0 = 1,
                 bc_a1 = - 2 * cos w / (1 + alpha),
                 bc_a2 = (1 - alpha) / (1 + alpha)\<rparr>
            | PEQ_TYPE_HIGH_PASS \<Rightarrow>
                \<lparr>bc_b0 = (1 + cos w) / 2 / (1 + alpha),
                 bc_b1 = - (1 + cos w) / (1 + alpha),
                 bc_b2 = (1 + cos w) / 2 / (1 + alpha),
                 bc_a0 = 1,
                 bc_a1 = - 2 * cos w / (1 + alpha),
                 bc_a2 = (1 - alpha) / (1 + alpha)\<rparr>
            | PEQ_TYPE_INVALID \<Rightarrow>
                uninit\<lparr>bc_b0 := 1, bc_b1 := 0, bc_b2 := 0, bc_a1 := 0, bc_a2 := 0\<rparr>)"
proof -
  have fs: "real AUDIO_SAMPLE_RATE = 48000" by (simp add: AUDIO_SAMPLE_RATE_def)
  note lim = PEQ_limits_inactive(1)[OF r(1,2)] PEQ_limits_inactive(2)[OF r(3)]
  show ?thesis
  proof (cases "pb_type c")
    case PEQ_TYPE_BELL
    then show ?thesis
      unfolding PEQ_band_coeffs_def PEQ_CalculateBell_def Let_def lim
      by (simp add: peq_normalize_def fs w alpha A)
  next
    case PEQ_TYPE_LOW_SHELF
    then show ?thesis
      unfolding PEQ_band_coeffs_def PEQ_CalculateLowShelf_def Let_def lim
      by (simp add: peq_normalize_def fs w alpha A beta)
  next
    case PEQ_TYPE_HIGH_SHELF
    then show ?thesis
      unfolding PEQ_band_coeffs_def PEQ_CalculateHighShelf_def Let_def lim
      by (simp add: peq_normalize_def fs w alpha A beta)
  next
    case PEQ_TYPE_LOW_PASS
    then show ?thesis
      unfolding PEQ_band_coeffs_def PEQ_CalculateLowPass_def Let_def lim
      by (simp add: peq_normalize_def fs w alpha)
  next
    case PEQ_TYPE_HIGH_PASS
    then show ?thesis
      unfolding PEQ_band_coeffs_def PEQ_CalculateHighPass_def Let_def lim
      by (simp add: peq_normalize_def fs w alpha)
  next
    case PEQ_TYPE_INVALID
    then show ?thesis
      unfolding PEQ_band_coeffs_def Let_def by simp
  qed
qed

lemma PEQ_ConfigureBand_result:
  assumes v: "channel < AUDIO_OUTPUT_CHANNELS" "band < PEQ_MAX_BANDS_PER_CHANNEL"
    and F: "F = max 20 (min 20000 (pb_frequency c))"
    and Q: "Q = max (1 / 10) (min 10 (pb_q c))"
    and G: "G = max (- 12) (min 12 (pb_gain c))"
    and bnd: "bnd = (PEQBands m channel band)
                      \<lparr>pb_type := pb_type c, pb_frequency := F, pb_gain := G, pb_q := Q,
                       pb_enabled := pb_enabled c\<rparr>"
  shows "PEQ_ConfigureBand setc uninit m channel band (Some c)
       = (HAL_OK,
          \<lparr>PEQBands = (PEQBands m)(channel := (PEQBands m channel)(band := bnd)),
           PEQBiquadStates = (PEQBiquadStates m)
             (channel := (PEQBiquadStates m channel)
                (band := setc (PEQBiquadStates m channel band) (PEQ_band_coeffs uninit bnd)))\<rparr>,
          Some (c\<lparr>pb_frequency := F, pb_q := Q, pb_gain := G\<rparr>))"
  using v
  by (cases m)
    (simp add: PEQ_ConfigureBand_def PEQ_UpdateFilterCoefficients_def Let_def F Q G bnd
      max_def min_def)

lemma PEQ_ConfigureBand_explicit:
  fixes m :: "BiquadState_t PEQModule"
  assumes v: "channel < AUDIO_OUTPUT_CHANNELS" "band < PEQ_MAX_BANDS_PER_CHANNEL"
    and F: "F = max 20 (min 20000 (pb_frequency c))"
    and Q: "Q = max (1 / 10) (min 10 (pb_q c))"
    and G: "G = max (- 12) (min 12 (pb_gain c))"
    and w: "w = 2 * pi * F / 48000"
    and alpha: "alpha = sin w / (2 * Q)"
    and A: "A = 10 powr (G / 40)"
    and beta: "beta = 2 * sqrt A * alpha"
    and K: "K = (case pb_type c of
              PEQ_TYPE_BELL \<Rightarrow>
                \<lparr>bc_b0 = (1 + alpha * A) / (1 + alpha / A),
                 bc_b1 = - 2 * cos w / (1 + alpha / A),
                 bc_b2 = (1 - alpha * A) / (1 + alpha / A),
                 bc_a0 = 1,
                 bc_a1 = - 2 * cos w / (1 + alpha / A),
                 bc_a2 = (1 - alpha / A) / (1 + alpha / A)\<rparr>
            | PEQ_TYPE_LOW_SHELF \<Rightarrow>
                \<lparr>bc_b0 = A * ((A + 1) - (A - 1) * cos w + beta) / ((A + 1) + (A - 1) * cos w + beta),
                 bc_b1 = 2 * A * ((A - 1) - (A + 1) * cos w) / ((A + 1) + (A - 1) * cos w + beta),
                 bc_b2 = A * ((A + 1) - (A - 1) * cos w - beta) / ((A + 1) + (A - 1) * cos w + beta),
                 bc_a0 = 1,
                 bc_a1 = - 2 * ((A - 1) + (A + 1) * cos w) / ((A + 1) + (A - 1) * cos w + beta),
                 bc_a2 = ((A + 1) + (A - 1) * cos w - beta) / ((A + 1) + (A - 1) * cos w + beta)\<rparr>
            | PEQ_TYPE_HIGH_SHELF \<Rightarrow>
                \<lparr>bc_b0 = A * ((A + 1) + (A - 1) * cos w + beta) / ((A + 1) - (A - 1) * cos w + beta),
                 bc_b1 = - 2 * A * ((A - 1) + (A + 1) * cos w) / ((A + 1) - (A - 1) * cos w + beta),
                 bc_b2 = A * ((A + 1) + (A - 1) * cos w - beta) / ((A + 1) - (A - 1) * cos w + beta),
                 bc_a0 = 1,
                 bc_a1 = 2 * ((A - 1) - (A + 1) * cos w) / ((A + 1) - (A - 1) * cos w + beta),
                 bc_a2 = ((A + 1) - (A - 1) * cos w - beta) / ((A + 1) - (A - 1) * cos w + beta)\<rparr>
            | PEQ_TYPE_LOW_PASS \<Rightarrow>
                \<lparr>bc_b0 = (1 - cos w) / 2 / (1 + alpha),
                 bc_b1 = (1 - cos w) / (1 + alpha),
                 bc_b2 = (1 - cos w) / 2 / (1 + alpha),
                 bc_a0 = 1,
                 bc_a1 = - 2 * cos w / (1 + alpha),
                 bc_a2 = (1 - alpha) / (1 + alpha)\<rparr>
            | PEQ_TYPE_HIGH_PASS \<Rightarrow>
                \<lparr>bc_b0 = (1 + cos w) / 2 / (1 + alpha),
                 bc_b1 = - (1 + cos w) / (1 + alpha),
                 bc_b2 = (1 + cos w) / 2 / (1 + alpha),
                 bc_a0 = 1,
                 bc_a1 = - 2 * cos w / (1 + alpha),
                 bc_a2 = (1 - alpha) / (1 + alpha)\<rparr>
            | PEQ_TYPE_INVALID \<Rightarrow>
                uninit\<lparr>bc_b0 := 1, bc_b1 := 0, bc_b2 := 0, bc_a1 := 0, bc_a2 := 0\<rparr>)"
  shows "(\<exists>m1. PEQ_ConfigureBand setc uninit m channel band (Some c)
                    = (HAL_OK, m1, Some (c\<lparr>pb_frequency := F, pb_q := Q, pb_gain := G\<rparr>))
            \<and> PEQBands m1 channel band
                = (PEQBands m channel band)
                    \<lparr>pb_type := pb_type c, pb_frequency := F, pb_gain := G, pb_q := Q,
                     pb_enabled := pb_enabled c\<rparr>
            \<and> PEQBiquadStates m1 channel band = setc (PEQBiquadStates m channel band) K
            \<and> (\<forall>ch b. ch \<noteq> channel \<or> b \<noteq> band \<longrightarrow>
                   PEQBiquadStates m1 ch b = PEQBiquadStates m ch b
                   \<and> PEQBands m1 ch b = PEQBands m ch b)
            \<and> (setc = Biquad_SetCoefficients \<longrightarrow>
                 PEQBiquadStates m1 channel band
                   = \<lparr>bq_b0 = bc_b0 K, bq_b1 = bc_b1 K, bq_b2 = bc_b2 K,
                      bq_a1 = bc_a1 K, bq_a2 = bc_a2 K,
                      bq_x1 = 0, bq_x2 = 0, bq_y1 = 0, bq_y2 = 0\<rparr>))"
proof -
  define bnd where "bnd = (PEQBands m channel band)
                      \<lparr>pb_type := pb_type c, pb_frequency := F, pb_gain := G, pb_q := Q,
                       pb_enabled := pb_enabled c\<rparr>"
  have rng: "20 \<le> pb_frequency bnd" "pb_frequency bnd \<le> 20000" "pb_q bnd \<le> 10"
    by (simp_all add: bnd_def F Q)
  have kb: "PEQ_band_coeffs uninit bnd = K"
    unfolding K
    using PEQ_band_coeffs_explicit[OF rng, of w alpha A beta uninit]
    by (simp add: bnd_def w alpha A beta)
  note res = PEQ_ConfigureBand_result[OF v F Q G bnd_def, of setc uninit, unfolded kb]
  have sc: "Biquad_SetCoefficients (PEQBiquadStates m channel band) K
      = \<lparr>bq_b0 = bc_b0 K, bq_b1 = bc_b1 K, bq_b2 = bc_b2 K,
         bq_a1 = bc_a1 K, bq_a2 = bc_a2 K,
         bq_x1 = 0, bq_x2 = 0, bq_y1 = 0, bq_y2 = 0\<rparr>"
    by (cases "PEQBiquadStates m channel band")
      (simp add: Biquad_SetCoefficients_def Biquad_Reset_def)
  show ?thesis
    unfolding res by (auto simp: bnd_def sc)
qed

text \<open>
  C10. \<^verbatim>\<open>PEQ_ConfigureBand\<close> with a valid channel and band succeeds. It stores the
  requested type and enable flag with the frequency \<open>F\<close>, the quality \<open>Q\<close> and the gain \<open>G\<close>,
  the requested values clamped to \<open>[20, 20000]\<close>, \<open>[0.1, 10]\<close> and \<open>[-12, 12]\<close>, in the band of
  that channel and band index, and hands the caller's structure back clamped. It passes to
  \<^verbatim>\<open>Biquad_SetCoefficients\<close>, with the biquad state of that band, the coefficient set \<open>K\<close>
  recomputed from \<open>F\<close>, \<open>Q\<close> and \<open>G\<close> at 48 kHz by the formula of the requested type,
  normalised by \<open>a0\<close>; the new state of the band is what the helper returns, for every
  helper \<open>setc\<close>. Every other band of the channel and every band of every other channel
  keeps its parameters and its biquad state, coefficients and history alike. With the
  helper modelled from the spec, the band holds the five new coefficients and its four
  history values are zero.
\<close>

theorem PEQ_ConfigureBand_touches_one_band:
  fixes m :: "BiquadState_t PEQModule"
  assumes "channel < AUDIO_OUTPUT_CHANNELS" and "band < PEQ_MAX_BANDS_PER_CHANNEL"
  shows "let F = max 20 (min 20000 (pb_frequency c));
             Q = max (1 / 10) (min 10 (pb_q c));
             G = max (- 12) (min 12 (pb_gain c));
             w = 2 * pi * F / 48000;
             alpha = sin w / (2 * Q);
             A = 10 powr (G / 40);
             beta = 2 * sqrt A * alpha;
             K = (case pb_type c of
              PEQ_TYPE_BELL \<Rightarrow>
                \<lparr>bc_b0 = (1 + alpha * A) / (1 + alpha / A),
                 bc_b1 = - 2 * cos w / (1 + alpha / A),
                 bc_b2 = (1 - alpha * A) / (1 + alpha / A),
                 bc_a0 = 1,
                 bc_a1 = - 2 * cos w / (1 + alpha / A),
                 bc_a2 = (1 - alpha / A) / (1 + alpha / A)\<rparr>
            | PEQ_TYPE_LOW_SHELF \<Rightarrow>
                \<lparr>bc_b0 = A * ((A + 1) - (A - 1) * cos w + beta) / ((A + 1) + (A - 1) * cos w + beta),
                 bc_b1 = 2 * A * ((A - 1) - (A + 1) * cos w) / ((A + 1) + (A - 1) * cos w + beta),
                 bc_b2 = A * ((A + 1) - (A - 1) * cos w - beta) / ((A + 1) + (A - 1) * cos w + beta),
                 bc_a0 = 1,
                 bc_a1 = - 2 * ((A - 1) + (A + 1) * cos w) / ((A + 1) + (A - 1) * cos w + beta),
                 bc_a2 = ((A + 1) + (A - 1) * cos w - beta) / ((A + 1) + (A - 1) * cos w + beta)\<rparr>
            | PEQ_TYPE_HIGH_SHELF \<Rightarrow>
                \<lparr>bc_b0 = A * ((A + 1) + (A - 1) * cos w + beta) / ((A + 1) - (A - 1) * cos w + beta),
                 bc_b1 = - 2 * A * ((A - 1) + (A + 1) * cos w) / ((A + 1) - (A - 1) * cos w + beta),
                 bc_b2 = A * ((A + 1) + (A - 1) * cos w - beta) / ((A + 1) - (A - 1) * cos w + beta),
                 bc_a0 = 1,
                 bc_a1 = 2 * ((A - 1) - (A + 1) * cos w) / ((A + 1) - (A - 1) * cos w + beta),
                 bc_a2 = ((A + 1) - (A - 1) * cos w - beta) / ((A + 1) - (A - 1) * cos w + beta)\<rparr>
            | PEQ_TYPE_LOW_PASS \<Rightarrow>
                \<lparr>bc_b0 = (1 - cos w) / 2 / (1 + alpha),
                 bc_b1 = (1 - cos w) / (1 + alpha),
                 bc_b2 = (1 - cos w) / 2 / (1 + alpha),
                 bc_a0 = 1,
                 bc_a1 = - 2 * cos w / (1 + alpha),
                 bc_a2 = (1 - alpha) / (1 + alpha)\<rparr>
            | PEQ_TYPE_HIGH_PASS \<Rightarrow>
                \<lparr>bc_b0 = (1 + cos w) / 2 / (1 + alpha),
                 bc_b1 = - (1 + cos w) / (1 + alpha),
                 bc_b2 = (1 + cos w) / 2 / (1 + alpha),
                 bc_a0 = 1,
                 bc_a1 = - 2 * cos w / (1 + alpha),
                 bc_a2 = (1 - alpha) / (1 + alpha)\<rparr>
            | PEQ_TYPE_INVALID \<Rightarrow>
                uninit\<lparr>bc_b0 := 1, bc_b1 := 0, bc_b2 := 0, bc_a1 := 0, bc_a2 := 0\<rparr>)
         in (\<exists>m1. PEQ_ConfigureBand setc uninit m channel band (Some c)
                    = (HAL_OK, m1, Some (c\<lparr>pb_frequency := F, pb_q := Q, pb_gain := G\<rparr>))
            \<and> PEQBands m1 channel band
                = (PEQBands m channel band)
                    \<lparr>pb_type := pb_type c, pb_frequency := F, pb_gain := G, pb_q := Q,
                     pb_enabled := pb_enabled c\<rparr>
            \<and> PEQBiquadStates m1 channel band = setc (PEQBiquadStates m channel band) K
            \<and> (\<forall>ch b. ch \<noteq> channel \<or> b \<noteq> band \<longrightarrow>
                   PEQBiquadStates m1 ch b = PEQBiquadStates m ch b
                   \<and> PEQBands m1 ch b = PEQBands m ch b)
            \<and> (setc = Biquad_SetCoefficients \<longrightarrow>
                 PEQBiquadStates m1 channel band
                   = \<lparr>bq_b0 = bc_b0 K, bq_b1 = bc_b1 K, bq_b2 = bc_b2 K,
                      bq_a1 = bc_a1 K, bq_a2 = bc_a2 K,
                      bq_x1 = 0, bq_x2 = 0, bq_y1 = 0, bq_y2 = 0\<rparr>))"
  unfolding Let_def
  by (rule PEQ_ConfigureBand_explicit[OF assms refl refl refl refl refl refl refl refl])

theorem PEQ_ConfigureBand_touches_one_band_witness:
  "\<exists>m1. PEQ_ConfigureBand Biquad_SetCoefficients ex_coeffs ex_peq 1 2
            (Some \<lparr>pb_type = PEQ_TYPE_LOW_PASS, pb_frequency = 30000, pb_gain = 20, pb_q = 1 / 2,
                   pb_enabled = 1\<rparr>)
          = (HAL_OK, m1,
             Some \<lparr>pb_type = PEQ_TYPE_LOW_PASS, pb_frequency = 20000, pb_gain = 12, pb_q = 1 / 2,
                   pb_enabled = 1\<rparr>)
     \<and> PEQBands m1 1 2
         = \<lparr>pb_type = PEQ_TYPE_LOW_PASS, pb_frequency = 20000, pb_gain = 12, pb_q = 1 / 2,
            pb_enabled = 1\<rparr>
     \<and> bq_b0 (PEQBiquadStates m1 1 2)
         = (1 - cos (2 * pi * 20000 / 48000)) / 2 / (1 + sin (2 * pi * 20000 / 48000) / (2 * (1 / 2)))
     \<and> bq_y1 (PEQBiquadStates m1 1 2) = 0
     \<and> bq_y1 (PEQBiquadStates ex_peq 1 2) = 1 / 2
     \<and> PEQBiquadStates m1 1 3 = ex_biquad
     \<and> PEQBiquadStates m1 0 2 = ex_biquad
     \<and> PEQBands m1 1 3 = ex_peq_band"
proof -
  have h: "(1::nat) < AUDIO_OUTPUT_CHANNELS" "(2::nat) < PEQ_MAX_BANDS_PER_CHANNEL"
    by (simp_all add: AUDIO_OUTPUT_CHANNELS_def PEQ_MAX_BANDS_PER_CHANNEL_def)
  note t = PEQ_ConfigureBand_touches_one_band[OF h,
      of "\<lparr>pb_type = PEQ_TYPE_LOW_PASS, pb_frequency = 30000, pb_gain = 20, pb_q = 1 / 2,
           pb_enabled = 1\<rparr>" ex_coeffs Biquad_SetCoefficients ex_peq, unfolded Let_def]
  from t obtain m1 where
    a: "PEQ_ConfigureBand Biquad_SetCoefficients ex_coeffs ex_peq 1 2
            (Some \<lparr>pb_type = PEQ_TYPE_LOW_PASS, pb_frequency = 30000, pb_gain = 20, pb_q = 1 / 2,
                   pb_enabled = 1\<rparr>)
          = (HAL_OK, m1,
             Some \<lparr>pb_type = PEQ_TYPE_LOW_PASS, pb_frequency = 20000, pb_gain = 12, pb_q = 1 / 2,
                   pb_enabled = 1\<rparr>)"
    and bnd: "PEQBands m1 1 2
         = (PEQBands ex_peq 1 2)
             \<lparr>pb_type := PEQ_TYPE_LOW_PASS, pb_frequency := 20000, pb_gain := 12, pb_q := 1 / 2,
              pb_enabled := 1\<rparr>"
    and st: "PEQBiquadStates m1 1 2
         = \<lparr>bq_b0 = (1 - cos (2 * pi * 20000 / 48000)) / 2
                      / (1 + sin (2 * pi * 20000 / 48000) / (2 * (1 / 2))),
            bq_b1 = (1 - cos (2 * pi * 20000 / 48000))
                      / (1 + sin (2 * pi * 20000 / 48000) / (2 * (1 / 2))),
            bq_b2 = (1 - cos (2 * pi * 20000 / 48000)) / 2
                      / (1 + sin (2 * pi * 20000 / 48000) / (2 * (1 / 2))),
            bq_a1 = - 2 * cos (2 * pi * 20000 / 48000)
                      / (1 + sin (2 * pi * 20000 / 48000) / (2 * (1 / 2))),
            bq_a2 = (1 - sin (2 * pi * 20000 / 48000) / (2 * (1 / 2)))
                      / (1 + sin (2 * pi * 20000 / 48000) / (2 * (1 / 2))),
            bq_x1 = 0, bq_x2 = 0, bq_y1 = 0, bq_y2 = 0\<rparr>"
    and f: "\<forall>ch b. ch \<noteq> 1 \<or> b \<noteq> 2 \<longrightarrow>
                   PEQBiquadStates m1 ch b = PEQBiquadStates ex_peq ch b
                   \<and> PEQBands m1 ch b = PEQBands ex_peq ch b"
    by auto
  have b2: "PEQBands m1 1 2
         = \<lparr>pb_type = PEQ_TYPE_LOW_PASS, pb_frequency = 20000, pb_gain = 12, pb_q = 1 / 2,
            pb_enabled = 1\<rparr>"
    unfolding bnd by (simp add: ex_peq_def ex_peq_band_def)
  have o: "PEQBiquadStates m1 1 3 = ex_biquad" "PEQBiquadStates m1 0 2 = ex_biquad"
    "PEQBands m1 1 3 = ex_peq_band"
    using f by (simp_all add: ex_peq_def)
  have y: "bq_y1 (PEQBiquadStates ex_peq 1 2) = 1 / 2"
    by (simp add: ex_peq_def ex_biquad_def)
  have s0: "bq_b0 (PEQBiquadStates m1 1 2)
         = (1 - cos (2 * pi * 20000 / 48000)) / 2 / (1 + sin (2 * pi * 20000 / 48000) / (2 * (1 / 2)))"
    and s1: "bq_y1 (PEQBiquadStates m1 1 2) = 0"
    unfolding st by simp_all
  from a b2 s0 s1 y o show ?thesis by blast
qed


section \<open>Linkwitz-Riley orders\<close>


lemma order_succ:
  fixes order :: "8 word"
  assumes "unat order < 255"
  shows "unat (order + 1) = unat order + 1"
  using assms by (simp add: unat_word_ariths)




lemma FilterDesign_Create_section:
  assumes "0 < freq" "0 < fs" "t \<noteq> FILTER_TYPE_NONE"
  shows "FilterDesign_Create (Some c) t freq (ComputeQForButterworthOrder bo i) 0 fs
       = (FILTER_DESIGN_SUCCESS, Some (Butterworth_section bo t freq fs i))"
proof -
  obtain r where
    r: "FilterDesign_Create (Some ex_filter_coeffs) t freq (ComputeQForButterworthOrder bo i) 0 fs
          = (FILTER_DESIGN_SUCCESS, Some r)"
    using FilterDesign_Create_success[OF assms] by blast
  have "FilterDesign_Create (Some c) t freq (ComputeQForButterworthOrder bo i) 0 fs
      = FilterDesign_Create (Some ex_filter_coeffs) t freq (ComputeQForButterworthOrder bo i) 0 fs"
    using assms by (simp add: FilterDesign_Create_def)
  then show ?thesis by (simp add: r Butterworth_section_def)
qed

lemma FilterDesign_sections_ok:
  assumes "0 < freq" "0 < fs" "t \<noteq> FILTER_TYPE_NONE"
  shows "FilterDesign_sections n i off bo t freq fs bank
       = (FILTER_DESIGN_SUCCESS,
          \<lambda>j. if off + i \<le> j \<and> j < off + i + n then Butterworth_section bo t freq fs (j - off)
               else bank j)"
proof (induction n arbitrary: i bank)
  case 0
  show ?case by (simp add: fun_eq_iff)
next
  case (Suc n)
  show ?case
    by (auto simp: FilterDesign_Create_section[OF assms] Suc fun_eq_iff)
qed

text \<open>For every order below 255 the Linkwitz-Riley branch of
  \<^verbatim>\<open>FilterDesign_CreateCascade\<close> rounds an odd order up to the next even one and writes two
  runs of sections, each the Butterworth cascade of half the rounded order.\<close>

lemma LinkwitzRiley_two_halves:
  fixes order0 numFilters :: "8 word"
  assumes p: "0 < freq" "0 < fs" "t \<noteq> FILTER_TYPE_NONE"
    and lt: "unat order0 < 255"
    and room: "(unat order0 + 1) div 2 \<le> unat numFilters" "1 \<le> unat numFilters"
    and r: "r = (if odd (unat order0) then unat order0 + 1 else unat order0)"
    and s: "s = (r div 2 + 1) div 2"
  shows "FilterDesign_CreateCascade bessel (Some bank) numFilters t freq
           FILTER_RESPONSE_LINKWITZ_RILEY order0 fs
       = (FILTER_DESIGN_SUCCESS,
          Some (\<lambda>j. if j < s then Butterworth_section (r div 2) t freq fs j
                     else if j < 2 * s then Butterworth_section (r div 2) t freq fs (j - s)
                     else bank j))"
proof -
  define bo where "bo = r div 2"
  define B1 where "B1 = (\<lambda>j. if j < s then Butterworth_section bo t freq fs j else bank j)"
  define B2 where
    "B2 = (\<lambda>j. if j < s then Butterworth_section bo t freq fs j
               else if j < 2 * s then Butterworth_section bo t freq fs (j - s)
               else bank j)"
  have "unat (if unat order0 mod 2 \<noteq> 0 then order0 + 1 else order0) = r"
    using order_succ[OF lt] by (simp add: r odd_iff_mod_2_eq_one)
  then have u: "unat (if unat order0 mod 2 \<noteq> 0 then order0 + 1 else order0) div 2 = bo"
    by (simp add: bo_def)
  have s': "(bo + 1) div 2 = s" by (simp add: s bo_def)
  have first: "FilterDesign_sections s 0 0 bo t freq fs bank = (FILTER_DESIGN_SUCCESS, B1)"
    unfolding FilterDesign_sections_ok[OF p] B1_def by (auto simp: fun_eq_iff)
  have second: "FilterDesign_sections s 0 s bo t freq fs B1 = (FILTER_DESIGN_SUCCESS, B2)"
    unfolding FilterDesign_sections_ok[OF p] B1_def B2_def by (auto simp: fun_eq_iff)
  have c: "\<not> (unat numFilters < 1 \<or> freq \<le> 0 \<or> fs \<le> 0)"
    "\<not> unat numFilters < (unat order0 + 1) div 2"
    using p room by simp_all
  have "FilterDesign_CreateCascade bessel (Some bank) numFilters t freq
           FILTER_RESPONSE_LINKWITZ_RILEY order0 fs = (FILTER_DESIGN_SUCCESS, Some B2)"
    unfolding FilterDesign_CreateCascade_def Let_def u s' if_not_P[OF c(1)] if_not_P[OF c(2)]
    by (simp add: first second)
  then show ?thesis unfolding B2_def bo_def .
qed





text \<open>At the order 255 the 8-bit addition \<^verbatim>\<open>order = order + 1\<close> gives 0: with a bank of 128
  sections, which the check on the number of filters asks for, the call reports success
  and designs no section.\<close>

lemma LinkwitzRiley_order_255:
  "FilterDesign_CreateCascade ex_bessel (Some ex_bank) 128 FILTER_TYPE_LOWPASS 1000
     FILTER_RESPONSE_LINKWITZ_RILEY 255 48000 = (FILTER_DESIGN_SUCCESS, Some ex_bank)"
  by (simp add: FilterDesign_CreateCascade_def Let_def)

text \<open>The order 3: rounded up to 4, two identical second-order Butterworth sections at the
  indices 0 and 1.\<close>

lemma LinkwitzRiley_order_3:
  "\<exists>b. FilterDesign_CreateCascade ex_bessel (Some ex_bank) 2 FILTER_TYPE_LOWPASS 1000
          FILTER_RESPONSE_LINKWITZ_RILEY 3 48000 = (FILTER_DESIGN_SUCCESS, Some b)
     \<and> b 0 = Butterworth_section 2 FILTER_TYPE_LOWPASS 1000 48000 0
     \<and> b 1 = Butterworth_section 2 FILTER_TYPE_LOWPASS 1000 48000 0
     \<and> b 2 = ex_bank 2"
proof -
  have r: "(4::nat) = (if odd (unat (3::8 word)) then unat (3::8 word) + 1 else unat (3::8 word))"
    by simp
  have s: "(1::nat) = (4 div 2 + 1) div 2" by simp
  have "FilterDesign_CreateCascade ex_bessel (Some ex_bank) 2 FILTER_TYPE_LOWPASS 1000
          FILTER_RESPONSE_LINKWITZ_RILEY 3 48000
      = (FILTER_DESIGN_SUCCESS,
         Some (\<lambda>j. if j < 1 then Butterworth_section (4 div 2) FILTER_TYPE_LOWPASS 1000 48000 j
                    else if j < 2 * 1
                         then Butterworth_section (4 div 2) FILTER_TYPE_LOWPASS 1000 48000 (j - 1)
                         else ex_bank j))"
    by (rule LinkwitzRiley_two_halves[OF _ _ _ _ _ _ r s]) simp_all
  then show ?thesis by simp
qed

text \<open>The check on the number of filters asks for \<open>(order + 1) / 2\<close> sections, the two
  halves take \<open>2 * ((order / 2 + 1) / 2)\<close>: for the order 2 and a bank of one section the
  second half is written at index 1, past the bank.\<close>

lemma LinkwitzRiley_order_2_bank_of_1:
  "\<exists>b. FilterDesign_CreateCascade ex_bessel (Some ex_bank) 1 FILTER_TYPE_LOWPASS 1000
          FILTER_RESPONSE_LINKWITZ_RILEY 2 48000 = (FILTER_DESIGN_SUCCESS, Some b)
     \<and> b 0 = Butterworth_section 1 FILTER_TYPE_LOWPASS 1000 48000 0
     \<and> b 1 = Butterworth_section 1 FILTER_TYPE_LOWPASS 1000 48000 0"
proof -
  have r: "(2::nat) = (if odd (unat (2::8 word)) then unat (2::8 word) + 1 else unat (2::8 word))"
    by simp
  have s: "(1::nat) = (2 div 2 + 1) div 2" by simp
  have "FilterDesign_CreateCascade ex_bessel (Some ex_bank) 1 FILTER_TYPE_LOWPASS 1000
          FILTER_RESPONSE_LINKWITZ_RILEY 2 48000
      = (FILTER_DESIGN_SUCCESS,
         Some (\<lambda>j. if j < 1 then Butterworth_section (2 div 2) FILTER_TYPE_LOWPASS 1000 48000 j
                    else if j < 2 * 1
                         then Butterworth_section (2 div 2) FILTER_TYPE_LOWPASS 1000 48000 (j - 1)
                         else ex_bank j))"
    by (rule LinkwitzRiley_two_halves[OF _ _ _ _ _ _ r s]) simp_all
  then show ?thesis by simp
qed

end
